theory Spec2Isabelle
  imports Main "HOL-Library.Char_ord" "HOL-Library.List_Lexorder" "HOL-Library.Multiset"
begin

section \<open>JavaScript strings\<close>

text \<open>
  A JavaScript string is modelled as a \<^typ>\<open>string\<close>: the list of its UTF-16 code units, for
  text whose code units are below 256 (ASCII and Latin-1). \<open>length\<close> is then the
  \<^verbatim>\<open>.length\<close> of the source.  The only text of the repository beyond that range are
  the flag glyphs of the v4.0 table, which are kept as the bytes the source file holds.
\<close>

definition white_space :: "char list" where
  \<comment> \<open>the class \<^verbatim>\<open>\s\<close> (white space and line terminators) below code unit 256\<close>
  "white_space = [CHR 0x09, CHR 0x0A, CHR 0x0B, CHR 0x0C, CHR 0x0D, CHR 0x20, CHR 0xA0]"

definition is_space :: "char \<Rightarrow> bool" where
  "is_space c = (c \<in> set white_space)"

definition lower_case :: "char list" where
  \<comment> \<open>the class \<^verbatim>\<open>[a-z]\<close>\<close>
  "lower_case = ''abcdefghijklmnopqrstuvwxyz''"

definition upper_case :: "char list" where
  "upper_case = ''ABCDEFGHIJKLMNOPQRSTUVWXYZ''"

definition is_lower :: "char \<Rightarrow> bool" where
  "is_lower c = (c \<in> set lower_case)"

definition upper_char :: "char \<Rightarrow> char" where
  \<comment> \<open>the upper case of an ASCII character\<close>
  "upper_char c = (case map_of (zip lower_case upper_case) c of Some u \<Rightarrow> u | None \<Rightarrow> c)"

definition lower_char :: "char \<Rightarrow> char" where
  "lower_char c = (case map_of (zip upper_case lower_case) c of Some l \<Rightarrow> l | None \<Rightarrow> c)"

definition is_digit :: "char \<Rightarrow> bool" where
  "is_digit c = (c \<in> set ''0123456789'')"

definition digit_val :: "char \<Rightarrow> nat" where
  "digit_val c = (case map_of (zip ''0123456789'' [0 ..< 10]) c of Some d \<Rightarrow> d | None \<Rightarrow> 0)"

definition starts_with :: "string \<Rightarrow> string \<Rightarrow> bool" where
  \<comment> \<open>\<^verbatim>\<open>s.startsWith(w)\<close>\<close>
  "starts_with s w = (take (length w) s = w)"

fun js_includes :: "string \<Rightarrow> string \<Rightarrow> bool" where
  \<comment> \<open>\<^verbatim>\<open>s.includes(w)\<close>\<close>
  "js_includes [] w = (w = [])"
| "js_includes (c # s) w = (starts_with (c # s) w \<or> js_includes s w)"

definition toUpperCase :: "string \<Rightarrow> string" where
  \<comment> \<open>\<^verbatim>\<open>String.prototype.toUpperCase\<close> on ASCII text, which is what language codes are;
      a letter beyond ASCII is left as it is\<close>
  "toUpperCase s = map upper_char s"

section \<open>Regular expressions\<close>

text \<open>
  Every regular expression of the repository is a sequence of single characters, character
  classes with a quantifier, anchors and capture parentheses.  A class is the list of its
  characters, or of the characters it excludes.  \<open>rx\<close> is the backtracking matcher of
  ECMAScript on such sequences: a greedy quantifier first tries one more character and falls
  back to the rest of the pattern, a lazy one does the opposite.  The result is the text
  each item consumed.  The flag says whether the position is the start of the input (for
  \<^verbatim>\<open>^\<close>).
\<close>

datatype cls =
    Only "char list"      \<comment> \<open>\<^verbatim>\<open>[abc]\<close>, and a single character\<close>
  | Except "char list"    \<comment> \<open>\<^verbatim>\<open>[^abc]\<close>; \<open>Except []\<close> is \<^verbatim>\<open>[\s\S]\<close>\<close>

fun accepts :: "cls \<Rightarrow> char \<Rightarrow> bool" where
  "accepts (Only cs) c = (c \<in> set cs)"
| "accepts (Except cs) c = (c \<notin> set cs)"

datatype item =
    Ch cls             \<comment> \<open>one character of a class\<close>
  | Rep cls nat bool   \<comment> \<open>a class, at least \<open>n\<close> times, greedy or lazy\<close>
  | Bol                \<comment> \<open>\<^verbatim>\<open>^\<close>\<close>
  | Eol                \<comment> \<open>\<^verbatim>\<open>$\<close>\<close>
  | Open               \<comment> \<open>\<^verbatim>\<open>(\<close>\<close>
  | Close              \<comment> \<open>\<^verbatim>\<open>)\<close>\<close>

fun glue :: "char \<Rightarrow> string list \<Rightarrow> string list" where
  "glue c [] = [[c]]"
| "glue c (w # ws) = (c # w) # ws"

fun rx :: "item list \<Rightarrow> bool \<Rightarrow> string \<Rightarrow> string list option" where
  "rx [] b s = Some []"
| "rx (Ch p # r) b [] = None"
| "rx (Ch p # r) b (c # s) = (if accepts p c then map_option ((#) [c]) (rx r False s) else None)"
| "rx (Bol # r) b s = (if b then map_option ((#) []) (rx r b s) else None)"
| "rx (Eol # r) b s = (if s = [] then map_option ((#) []) (rx r b s) else None)"
| "rx (Open # r) b s = map_option ((#) []) (rx r b s)"
| "rx (Close # r) b s = map_option ((#) []) (rx r b s)"
| "rx (Rep p (Suc n) g # r) b [] = None"
| "rx (Rep p (Suc n) g # r) b (c # s) =
     (if accepts p c then map_option (glue c) (rx (Rep p n g # r) False s) else None)"
| "rx (Rep p 0 g # r) b [] = map_option ((#) []) (rx r b [])"
| "rx (Rep p 0 g # r) b (c # s) =
     (if g then
        (case (if accepts p c then map_option (glue c) (rx (Rep p 0 g # r) False s) else None) of
           Some m \<Rightarrow> Some m
         | None \<Rightarrow> map_option ((#) []) (rx r b (c # s)))
      else
        (case map_option ((#) []) (rx r b (c # s)) of
           Some m \<Rightarrow> Some m
         | None \<Rightarrow> (if accepts p c then map_option (glue c) (rx (Rep p 0 g # r) False s) else None)))"

text \<open>
  The search for the leftmost match: the number of characters before it, and its pieces.
\<close>

fun rx_search :: "item list \<Rightarrow> bool \<Rightarrow> string \<Rightarrow> (nat \<times> string list) option" where
  "rx_search re b [] = (case rx re b [] of Some ps \<Rightarrow> Some (0, ps) | None \<Rightarrow> None)"
| "rx_search re b (c # s) =
     (case rx re b (c # s) of
        Some ps \<Rightarrow> Some (0, ps)
      | None \<Rightarrow> map_option (\<lambda>(i, ps). (Suc i, ps)) (rx_search re False s))"

text \<open>The captures, in the order of their opening parentheses (no group is nested).\<close>

fun upto_close :: "item list \<Rightarrow> string list \<Rightarrow> string" where
  "upto_close (Close # r) ps = []"
| "upto_close (i # r) (p # ps) = p @ upto_close r ps"
| "upto_close r ps = []"

fun caps :: "item list \<Rightarrow> string list \<Rightarrow> string list" where
  "caps (Open # r) (p # ps) = upto_close r ps # caps r ps"
| "caps (i # r) (p # ps) = caps r ps"
| "caps r ps = []"

definition lit :: "string \<Rightarrow> item list" where
  \<comment> \<open>a literal text\<close>
  "lit w = map (\<lambda>c. Ch (Only [c])) w"

definition white :: cls where
  \<comment> \<open>\<^verbatim>\<open>\s\<close>\<close>
  "white = Only white_space"

definition js_test :: "item list \<Rightarrow> string \<Rightarrow> bool" where
  \<comment> \<open>\<^verbatim>\<open>re.test(s)\<close>\<close>
  "js_test re s = (rx_search re True s \<noteq> None)"

definition js_match :: "item list \<Rightarrow> string \<Rightarrow> string list option" where
  \<comment> \<open>\<^verbatim>\<open>s.match(re)\<close> without the g flag: the match, then the captures; \<open>None\<close> is \<^verbatim>\<open>null\<close>\<close>
  "js_match re s =
     (case rx_search re True s of
        None \<Rightarrow> None
      | Some (i, ps) \<Rightarrow> Some (concat ps # caps re ps))"

text \<open>
  The replacement text of \<^verbatim>\<open>String.prototype.replace\<close> (GetSubstitution of ECMA-262):
  \<^verbatim>\<open>$$\<close>, \<^verbatim>\<open>$&\<close>, \<^verbatim>\<open>$`\<close>, \<^verbatim>\<open>$'\<close> and
  \<^verbatim>\<open>$n\<close>, \<^verbatim>\<open>$nn\<close> are expanded; a two-digit reference beyond the
  number of groups is read as one digit; a reference to no group stays as it is written.
\<close>

fun get_substitution :: "string \<Rightarrow> string \<Rightarrow> string \<Rightarrow> string list \<Rightarrow> string \<Rightarrow> string" where
  "get_substitution m pre post cs [] = []"
| "get_substitution m pre post cs [c] = [c]"
| "get_substitution m pre post cs (c # d # t) =
     (if c \<noteq> CHR ''$'' then c # get_substitution m pre post cs (d # t)
      else if d = CHR ''$'' then CHR ''$'' # get_substitution m pre post cs t
      else if d = CHR 0x60 then pre @ get_substitution m pre post cs t
      else if d = CHR ''&'' then m @ get_substitution m pre post cs t
      else if d = CHR 0x27 then post @ get_substitution m pre post cs t
      else if is_digit d then
        (case t of
           e # t' \<Rightarrow>
             if is_digit e \<and> 10 * digit_val d + digit_val e \<le> length cs then
               (if 1 \<le> 10 * digit_val d + digit_val e
                then cs ! (10 * digit_val d + digit_val e - 1) @ get_substitution m pre post cs t'
                else c # d # e # get_substitution m pre post cs t')
             else
               (if 1 \<le> digit_val d \<and> digit_val d \<le> length cs
                then cs ! (digit_val d - 1) @ get_substitution m pre post cs t
                else c # d # get_substitution m pre post cs t)
         | [] \<Rightarrow>
             (if 1 \<le> digit_val d \<and> digit_val d \<le> length cs
              then cs ! (digit_val d - 1) @ get_substitution m pre post cs t
              else c # d # get_substitution m pre post cs t))
      else c # get_substitution m pre post cs (d # t))"

definition js_replace :: "item list \<Rightarrow> string \<Rightarrow> string \<Rightarrow> string" where
  \<comment> \<open>\<^verbatim>\<open>s.replace(re, repl)\<close> without the g flag: the leftmost match only\<close>
  "js_replace re repl s =
     (case rx_search re True s of
        None \<Rightarrow> s
      | Some (i, ps) \<Rightarrow>
          (let matched = concat ps;
               pre = take i s;
               post = drop (i + length matched) s
           in pre @ get_substitution matched pre post (caps re ps) repl @ post))"

section \<open>The navigation menu widget\<close>

subsection \<open>The menu configuration and the page\<close>

record review =
  r_label :: string
  r_url :: string

record language =
  l_code :: string
  l_label :: string
  l_flag :: string

text \<open>A property that is absent (or \<^verbatim>\<open>null\<close>) is \<open>None\<close>; the source reads it with \<^verbatim>\<open>|| []\<close>.\<close>

record menu_data =
  reviews :: "review list option"
  languages :: "language list option"

text \<open>
  What \<^verbatim>\<open>fetch(url).then(response => response.json())\<close> settles to: the fetch rejects,
  the body is not JSON, or the parsed value (\<open>None\<close> when it is \<^verbatim>\<open>null\<close>).
\<close>

datatype fetch_result = NetworkError | InvalidJson | Json "menu_data option"

text \<open>
  The page the script runs in: the path of \<^verbatim>\<open>window.location\<close>, the local storage,
  the markup (\<^verbatim>\<open>innerHTML\<close>) of the elements that have an id, the last value assigned to
  \<^verbatim>\<open>window.location.href\<close> (a navigation), the warnings of the console, the number of
  times the event handlers were attached, and the network.
\<close>

record page =
  pathname :: string
  localStorage :: "string \<rightharpoonup> string"
  elements :: "string \<rightharpoonup> string"
  location_href :: "string option"
  console_warn :: "string list"
  listeners :: nat
  network :: "string \<Rightarrow> fetch_result"

record widget = page +
  menuContainerId :: string
  menuDataUrl :: string
  menuData :: "menu_data option"
  currentLang :: string

record widget40 = widget +
  closeTimeout :: "nat option"

record options =
  opt_menuContainerId :: "string option"
  opt_menuDataUrl :: "string option"

definition or_default :: "string option \<Rightarrow> string \<Rightarrow> string" where
  \<comment> \<open>\<^verbatim>\<open>x || d\<close> on a string that may be absent: the empty string is falsy\<close>
  "or_default x d = (case x of None \<Rightarrow> d | Some v \<Rightarrow> if v = [] then d else v)"

definition re_region_cap :: "item list" where
  \<comment> \<open>\<^verbatim>\<open>/\/regions\/([a-z]{2})\//\<close>\<close>
  "re_region_cap = lit ''/regions/'' @ [Open, Ch (Only lower_case), Ch (Only lower_case), Close] @ lit ''/''"

definition re_region :: "item list" where
  \<comment> \<open>\<^verbatim>\<open>/\/regions\/[a-z]{2}\//\<close>\<close>
  "re_region = lit ''/regions/'' @ [Ch (Only lower_case), Ch (Only lower_case)] @ lit ''/''"

subsection \<open>Smart Navigation Menu v3.1\<close>

definition detectLanguage_v31 :: "'a page_scheme \<Rightarrow> string" where
  "detectLanguage_v31 pg =
     (case js_match re_region_cap (pathname pg) of
        Some pathMatch \<Rightarrow> pathMatch ! 1
      | None \<Rightarrow>
          (case localStorage pg ''preferredLanguage'' of
             Some stored \<Rightarrow> if stored \<noteq> [] then stored else ''en''
           | None \<Rightarrow> ''en''))"

definition getLocalizedUrl_v31 :: "widget \<Rightarrow> string \<Rightarrow> string" where
  "getLocalizedUrl_v31 w url = js_replace re_region (''/regions/'' @ currentLang w @ ''/'') url"

definition buildFallbackHtml_v31 :: string where
  \<open>buildFallbackHtml_v31 = ''\<newline>      <ul class="menu-list flex flex-wrap items-center gap-4 lg:gap-6">\<newline>        <li class="menu-item"><a href="/" class="menu-link text-white hover:text-slate-200">Home</a></li>\<newline>        <li class="menu-item"><a href="/about.html" class="menu-link text-white hover:text-slate-200">About</a></li>\<newline>        <li class="menu-item"><a href="/privacy-policy.html" class="menu-link text-white hover:text-slate-200">Privacy Policy</a></li>\<newline>      </ul>\<newline>    ''\<close>

text \<open>The loop over the reviews of \<^verbatim>\<open>buildMenuHtml\<close>.\<close>

fun reviewLinks_v31 :: "widget \<Rightarrow> review list \<Rightarrow> string" where
  \<open>reviewLinks_v31 w [] = []\<close>
| \<open>reviewLinks_v31 w (review # rest) =
     (''<li class="menu-submenu-item">\<newline>          <a href="'' @ getLocalizedUrl_v31 w (r_url review) @ ''" class="menu-submenu-link block px-4 py-2 text-slate-200 hover:bg-slate-700 hover:text-white transition-colors">'' @ r_label review @ ''</a>\<newline>        </li>'')
     @ reviewLinks_v31 w rest\<close>

text \<open>The loop over the languages of \<^verbatim>\<open>buildLanguageDropdown\<close>.\<close>

fun languageLinks_v31 :: "widget \<Rightarrow> language list \<Rightarrow> string" where
  \<open>languageLinks_v31 w [] = []\<close>
| \<open>languageLinks_v31 w (lang # rest) =
     (let isActive = (l_code lang = currentLang w);
          activeClass = (if isActive then '' bg-slate-700'' else [])
      in ''<li class="menu-submenu-item">\<newline>        <a href="#" class="menu-submenu-link block px-4 py-2 text-slate-200 hover:bg-slate-700 hover:text-white transition-colors'' @ activeClass @ ''" data-lang="'' @ l_code lang @ ''">'' @ l_flag lang @ '' '' @ l_label lang @ ''</a>\<newline>      </li>'')
     @ languageLinks_v31 w rest\<close>

text \<open>
  \<^verbatim>\<open>buildLanguageDropdown\<close> is called on a list of more than one language only; \<open>first\<close>
  is its \<^verbatim>\<open>languages[0]\<close>.
\<close>

definition buildLanguageDropdown_v31 :: "widget \<Rightarrow> language \<Rightarrow> language list \<Rightarrow> string" where
  \<open>buildLanguageDropdown_v31 w first langs =
     (let currentLangData = (case find (\<lambda>l. l_code l = currentLang w) langs of Some l \<Rightarrow> l | None \<Rightarrow> first)
      in ''<li class="menu-item menu-item--with-children relative ml-4">\<newline>      <button class="menu-link menu-link--parent text-white hover:text-slate-200 transition-colors flex items-center gap-1 border border-white/20 rounded px-3 py-1">\<newline>        <span class="text-sm">'' @ l_flag currentLangData @ '' '' @ toUpperCase (l_code currentLangData) @ ''</span>\<newline>        <svg class="w-4 h-4" fill="none" stroke="currentColor" viewBox="0 0 24 24"><path stroke-linecap="round" stroke-linejoin="round" stroke-width="2" d="M19 9l-7 7-7-7"></path></svg>\<newline>      </button>\<newline>      <ul class="menu-submenu absolute top-full right-0 mt-2 bg-slate-800 rounded-lg shadow-xl py-2 min-w-[140px] hidden z-50">''
         @ languageLinks_v31 w langs
         @ ''</ul></li>'')\<close>

definition buildMenuHtml_v31 :: "widget \<Rightarrow> string" where
  \<open>buildMenuHtml_v31 w =
     (case menuData w of
        None \<Rightarrow> buildFallbackHtml_v31
      | Some md \<Rightarrow>
          (let revs = (case reviews md of Some r \<Rightarrow> r | None \<Rightarrow> []);
               langs = (case languages md of Some l \<Rightarrow> l | None \<Rightarrow> [])
           in ''<ul class="menu-list flex flex-wrap items-center gap-4 lg:gap-6">''
              @ ''<li class="menu-item"><a href="/" class="menu-link text-white hover:text-slate-200 transition-colors">Home</a></li>''
              @ (if length revs > 0
                 then ''<li class="menu-item menu-item--with-children relative">\<newline>        <button class="menu-link menu-link--parent text-white hover:text-slate-200 transition-colors flex items-center gap-1">\<newline>          Reviews\<newline>          <svg class="w-4 h-4" fill="none" stroke="currentColor" viewBox="0 0 24 24"><path stroke-linecap="round" stroke-linejoin="round" stroke-width="2" d="M19 9l-7 7-7-7"></path></svg>\<newline>        </button>\<newline>        <ul class="menu-submenu absolute top-full left-0 mt-2 bg-slate-800 rounded-lg shadow-xl py-2 min-w-[250px] hidden z-50">''
                      @ reviewLinks_v31 w revs
                      @ ''</ul></li>''
                 else [])
              @ ''<li class="menu-item"><a href="/about.html" class="menu-link text-white hover:text-slate-200 transition-colors">About</a></li>''
              @ ''<li class="menu-item"><a href="/privacy-policy.html" class="menu-link text-white hover:text-slate-200 transition-colors">Privacy Policy</a></li>''
              @ (case langs of
                   first # second # others \<Rightarrow> buildLanguageDropdown_v31 w first langs
                 | _ \<Rightarrow> [])
              @ ''</ul>''))\<close>

definition attachEventListeners_v31 :: "widget \<Rightarrow> widget" where
  \<comment> \<open>installs the click handlers (the dropdown toggles; a language link calls
      \<^verbatim>\<open>switchLanguage\<close> with its \<^verbatim>\<open>data-lang\<close>); the state records that it ran\<close>
  "attachEventListeners_v31 w = w\<lparr>listeners := Suc (listeners w)\<rparr>"

definition renderMenu_v31 :: "widget \<Rightarrow> widget" where
  "renderMenu_v31 w =
     (case elements w (menuContainerId w) of
        None \<Rightarrow> w
      | Some old \<Rightarrow>
          attachEventListeners_v31
            (w\<lparr>elements := (elements w)(menuContainerId w \<mapsto> buildMenuHtml_v31 w)\<rparr>))"

definition renderFallbackMenu_v31 :: "widget \<Rightarrow> widget" where
  "renderFallbackMenu_v31 w =
     (case elements w (menuContainerId w) of
        None \<Rightarrow> w
      | Some old \<Rightarrow> w\<lparr>elements := (elements w)(menuContainerId w \<mapsto> buildFallbackHtml_v31)\<rparr>)"

definition loadMenuData_v31 :: "widget \<Rightarrow> widget" where
  "loadMenuData_v31 w =
     (case network w (menuDataUrl w) of
        Json data \<Rightarrow> renderMenu_v31 (w\<lparr>menuData := data\<rparr>)
      | NetworkError \<Rightarrow>
          renderFallbackMenu_v31 (w\<lparr>console_warn := console_warn w @ [''Failed to load menu data:'']\<rparr>)
      | InvalidJson \<Rightarrow>
          renderFallbackMenu_v31 (w\<lparr>console_warn := console_warn w @ [''Failed to load menu data:'']\<rparr>))"

definition new_v31 :: "options \<Rightarrow> page \<Rightarrow> widget" where
  \<comment> \<open>the constructor, with \<^verbatim>\<open>init\<close> and the completion of the fetch it starts\<close>
  "new_v31 opts pg =
     loadMenuData_v31
       \<lparr>pathname = pathname pg, localStorage = localStorage pg, elements = elements pg,
        location_href = location_href pg, console_warn = console_warn pg,
        listeners = listeners pg, network = network pg,
        menuContainerId = or_default (opt_menuContainerId opts) ''dynamic-menu'',
        menuDataUrl = or_default (opt_menuDataUrl opts) ''/data/menu.json'',
        menuData = None,
        currentLang = detectLanguage_v31 pg\<rparr>"

definition switchLanguage_v31 :: "string \<Rightarrow> widget \<Rightarrow> widget" where
  "switchLanguage_v31 newLang w =
     (let w1 = w\<lparr>localStorage := (localStorage w)(''preferredLanguage'' \<mapsto> newLang)\<rparr>;
          currentPath = pathname w1
      in if js_includes currentPath ''/regions/''
         then (let newPath = js_replace re_region (''/regions/'' @ newLang @ ''/'') currentPath
               in w1\<lparr>location_href := Some newPath\<rparr>)
         else renderMenu_v31 (w1\<lparr>currentLang := newLang\<rparr>))"

subsection \<open>Smart Navigation Menu v4.0\<close>

definition detectLanguage_v40 :: "'a page_scheme \<Rightarrow> string" where
  "detectLanguage_v40 pg =
     (case js_match re_region_cap (pathname pg) of
        Some pathMatch \<Rightarrow> pathMatch ! 1
      | None \<Rightarrow>
          (case localStorage pg ''preferredLanguage'' of
             Some stored \<Rightarrow> if stored \<noteq> [] then stored else ''en''
           | None \<Rightarrow> ''en''))"

definition getLocalizedUrl_v40 :: "widget40 \<Rightarrow> string \<Rightarrow> string" where
  "getLocalizedUrl_v40 w url = js_replace re_region (''/regions/'' @ currentLang w @ ''/'') url"

definition getCountryFlag :: "string \<Rightarrow> string" where
  \<comment> \<open>the table of seven flags, else the globe; each glyph as the bytes of the source file.
      The codes of a configuration are two letters: for a name that every object inherits,
      such as \<^verbatim>\<open>constructor\<close>, the source prints the inherited value, not the globe\<close>
  \<open>getCountryFlag langCode =
     (if langCode = ''en'' then [CHR 0xF0, CHR 0x9F, CHR 0x87, CHR 0xAC, CHR 0xF0, CHR 0x9F, CHR 0x87, CHR 0xA7]
      else if langCode = ''de'' then [CHR 0xF0, CHR 0x9F, CHR 0x87, CHR 0xA9, CHR 0xF0, CHR 0x9F, CHR 0x87, CHR 0xAA]
      else if langCode = ''es'' then [CHR 0xF0, CHR 0x9F, CHR 0x87, CHR 0xAA, CHR 0xF0, CHR 0x9F, CHR 0x87, CHR 0xB8]
      else if langCode = ''fr'' then [CHR 0xF0, CHR 0x9F, CHR 0x87, CHR 0xAB, CHR 0xF0, CHR 0x9F, CHR 0x87, CHR 0xB7]
      else if langCode = ''it'' then [CHR 0xF0, CHR 0x9F, CHR 0x87, CHR 0xAE, CHR 0xF0, CHR 0x9F, CHR 0x87, CHR 0xB9]
      else if langCode = ''nl'' then [CHR 0xF0, CHR 0x9F, CHR 0x87, CHR 0xB3, CHR 0xF0, CHR 0x9F, CHR 0x87, CHR 0xB1]
      else if langCode = ''pt'' then [CHR 0xF0, CHR 0x9F, CHR 0x87, CHR 0xB5, CHR 0xF0, CHR 0x9F, CHR 0x87, CHR 0xB9]
      else [CHR 0xF0, CHR 0x9F, CHR 0x8C, CHR 0x90])\<close>

definition buildFallbackHtml_v40 :: string where
  \<open>buildFallbackHtml_v40 = ''\<newline>      <nav class="flex items-center gap-6">\<newline>        <a href="/" class="text-gray-600 hover:text-gray-900 text-sm font-medium no-underline">Home</a>\<newline>        <a href="/about.html" class="text-gray-600 hover:text-gray-900 text-sm font-medium no-underline">About</a>\<newline>      </nav>\<newline>    ''\<close>

fun reviewLinks_v40 :: "widget40 \<Rightarrow> review list \<Rightarrow> string" where
  \<open>reviewLinks_v40 w [] = []\<close>
| \<open>reviewLinks_v40 w (review # rest) =
     (''<a href="'' @ getLocalizedUrl_v40 w (r_url review) @ ''" class="block px-4 py-2 text-gray-600 hover:bg-gray-50 hover:text-gray-900 text-sm no-underline transition-colors">'' @ r_label review @ ''</a>'')
     @ reviewLinks_v40 w rest\<close>

fun languageLinks_v40 :: "widget40 \<Rightarrow> language list \<Rightarrow> string" where
  \<open>languageLinks_v40 w [] = []\<close>
| \<open>languageLinks_v40 w (lang # rest) =
     (let isActive = (l_code lang = currentLang w);
          activeClass = (if isActive then '' bg-gray-50 font-medium'' else []);
          flag = getCountryFlag (l_code lang)
      in ''<a href="#" class="block px-4 py-2 text-gray-600 hover:bg-gray-50 hover:text-gray-900 text-sm no-underline transition-colors'' @ activeClass @ ''" data-lang="'' @ l_code lang @ ''">'' @ flag @ '' '' @ l_label lang @ ''</a>'')
     @ languageLinks_v40 w rest\<close>

definition buildLanguageDropdown_v40 :: "widget40 \<Rightarrow> language \<Rightarrow> language list \<Rightarrow> string" where
  \<open>buildLanguageDropdown_v40 w first langs =
     (let currentLangData = (case find (\<lambda>l. l_code l = currentLang w) langs of Some l \<Rightarrow> l | None \<Rightarrow> first);
          flagEmoji = getCountryFlag (l_code currentLangData)
      in ''<div class="relative group ml-2">\<newline>      <button class="text-gray-500 hover:text-gray-700 text-sm font-medium transition-colors flex items-center gap-1 px-2 py-1 rounded border border-gray-200 hover:border-gray-300">\<newline>        <span>'' @ flagEmoji @ ''</span>\<newline>        <svg class="w-3 h-3" fill="none" stroke="currentColor" viewBox="0 0 24 24"><path stroke-linecap="round" stroke-linejoin="round" stroke-width="2" d="M19 9l-7 7-7-7"></path></svg>\<newline>      </button>\<newline>      <div class="menu-dropdown absolute top-full right-0 pt-2 hidden z-50">\<newline>        <div class="bg-white rounded-xl shadow-lg border border-gray-100 py-2 min-w-[140px]">''
         @ languageLinks_v40 w langs
         @ ''</div></div></div>'')\<close>

definition buildMenuHtml_v40 :: "widget40 \<Rightarrow> string" where
  \<open>buildMenuHtml_v40 w =
     (case menuData w of
        None \<Rightarrow> buildFallbackHtml_v40
      | Some md \<Rightarrow>
          (let revs = (case reviews md of Some r \<Rightarrow> r | None \<Rightarrow> []);
               langs = (case languages md of Some l \<Rightarrow> l | None \<Rightarrow> [])
           in ''<nav class="flex items-center gap-6">''
              @ ''<a href="/" class="text-gray-600 hover:text-gray-900 text-sm font-medium transition-colors no-underline">Home</a>''
              @ (if length revs > 0
                 then ''<div class="relative group">\<newline>        <button class="text-gray-600 hover:text-gray-900 text-sm font-medium transition-colors flex items-center gap-1">\<newline>          Reviews\<newline>          <svg class="w-4 h-4 transition-transform group-hover:rotate-180" fill="none" stroke="currentColor" viewBox="0 0 24 24"><path stroke-linecap="round" stroke-linejoin="round" stroke-width="2" d="M19 9l-7 7-7-7"></path></svg>\<newline>        </button>\<newline>        <div class="menu-dropdown absolute top-full right-0 pt-2 hidden z-50">\<newline>          <div class="bg-white rounded-xl shadow-lg border border-gray-100 py-2 min-w-[260px]">''
                      @ reviewLinks_v40 w revs
                      @ ''</div></div></div>''
                 else [])
              @ ''<a href="/about.html" class="text-gray-600 hover:text-gray-900 text-sm font-medium transition-colors no-underline">About</a>''
              @ (case langs of
                   first # second # others \<Rightarrow> buildLanguageDropdown_v40 w first langs
                 | _ \<Rightarrow> [])
              @ ''</nav>''))\<close>

definition attachEventListeners_v40 :: "widget40 \<Rightarrow> widget40" where
  \<comment> \<open>installs the hover and click handlers (a language link calls \<^verbatim>\<open>switchLanguage\<close>
      with its \<^verbatim>\<open>data-lang\<close>); the state records that it ran\<close>
  "attachEventListeners_v40 w = w\<lparr>listeners := Suc (listeners w)\<rparr>"

definition renderMenu_v40 :: "widget40 \<Rightarrow> widget40" where
  "renderMenu_v40 w =
     (case elements w (menuContainerId w) of
        None \<Rightarrow> w
      | Some old \<Rightarrow>
          attachEventListeners_v40
            (w\<lparr>elements := (elements w)(menuContainerId w \<mapsto> buildMenuHtml_v40 w)\<rparr>))"

definition renderFallbackMenu_v40 :: "widget40 \<Rightarrow> widget40" where
  "renderFallbackMenu_v40 w =
     (case elements w (menuContainerId w) of
        None \<Rightarrow> w
      | Some old \<Rightarrow> w\<lparr>elements := (elements w)(menuContainerId w \<mapsto> buildFallbackHtml_v40)\<rparr>)"

definition loadMenuData_v40 :: "widget40 \<Rightarrow> widget40" where
  "loadMenuData_v40 w =
     (case network w (menuDataUrl w) of
        Json data \<Rightarrow> renderMenu_v40 (w\<lparr>menuData := data\<rparr>)
      | NetworkError \<Rightarrow>
          renderFallbackMenu_v40 (w\<lparr>console_warn := console_warn w @ [''Failed to load menu data:'']\<rparr>)
      | InvalidJson \<Rightarrow>
          renderFallbackMenu_v40 (w\<lparr>console_warn := console_warn w @ [''Failed to load menu data:'']\<rparr>))"

definition new_v40 :: "options \<Rightarrow> page \<Rightarrow> widget40" where
  "new_v40 opts pg =
     loadMenuData_v40
       \<lparr>pathname = pathname pg, localStorage = localStorage pg, elements = elements pg,
        location_href = location_href pg, console_warn = console_warn pg,
        listeners = listeners pg, network = network pg,
        menuContainerId = or_default (opt_menuContainerId opts) ''dynamic-menu'',
        menuDataUrl = or_default (opt_menuDataUrl opts) ''/data/menu.json'',
        menuData = None,
        currentLang = detectLanguage_v40 pg,
        closeTimeout = None\<rparr>"

definition switchLanguage_v40 :: "string \<Rightarrow> widget40 \<Rightarrow> widget40" where
  "switchLanguage_v40 newLang w =
     (let w1 = w\<lparr>localStorage := (localStorage w)(''preferredLanguage'' \<mapsto> newLang)\<rparr>;
          currentPath = pathname w1
      in if js_includes currentPath ''/regions/''
         then (let newPath = js_replace re_region (''/regions/'' @ newLang @ ''/'') currentPath
               in w1\<lparr>location_href := Some newPath\<rparr>)
         else renderMenu_v40 (w1\<lparr>currentLang := newLang\<rparr>))"

subsection \<open>Region segments of a path\<close>

text \<open>
  The words of the specification about paths: a segment \<^verbatim>\<open>/regions/{two lowercase letters}/\<close>
  at the head of a text, the position of the leftmost segment of a text, and the text with
  its leftmost segment replaced by \<^verbatim>\<open>/regions/{lang}/\<close>.
\<close>

definition region_at :: "string \<Rightarrow> bool" where
  "region_at s =
     (starts_with s ''/regions/'' \<and>
      (case drop 9 s of
         a # b # c # t \<Rightarrow> is_lower a \<and> is_lower b \<and> c = CHR ''/''
       | _ \<Rightarrow> False))"

fun first_region :: "string \<Rightarrow> nat option" where
  "first_region [] = None"
| "first_region (c # s) = (if region_at (c # s) then Some 0 else map_option Suc (first_region s))"

definition subst_region :: "string \<Rightarrow> string \<Rightarrow> string" where
  "subst_region lang s =
     (case first_region s of
        None \<Rightarrow> s
      | Some i \<Rightarrow> take i s @ ''/regions/'' @ lang @ ''/'' @ drop (i + 12) s)"

definition is_lang_code :: "string \<Rightarrow> bool" where
  "is_lang_code l = (length l = 2 \<and> list_all is_lower l)"

subsection \<open>Reading a rendered menu, and example pages\<close>

text \<open>
  \<open>anchors\<close> lists the links of a markup in their order, each with its target and its text.
  The example pages and widgets are the inputs of the worked examples.
\<close>

definition re_anchor :: "item list" where
  \<comment> \<open>\<^verbatim>\<open>/<a href="([^"]*)"[^>]*>([^<]*)<\/a>/\<close>: a link, its target and its text\<close>
  \<open>re_anchor =
     lit ''<a href="'' @ [Open, Rep (Except [CHR 0x22]) 0 True, Close] @ lit [CHR 0x22]
     @ [Rep (Except ''>'') 0 True] @ lit ''>''
     @ [Open, Rep (Except ''<'') 0 True, Close] @ lit ''</a>''\<close>

fun anchors :: "string \<Rightarrow> (string \<times> string) list" where
  "anchors [] = []"
| "anchors (c # s) =
     (case rx re_anchor False (c # s) of
        Some ps \<Rightarrow> (caps re_anchor ps ! 0, caps re_anchor ps ! 1) # anchors s
      | None \<Rightarrow> anchors s)"

definition page_of :: "string \<Rightarrow> string option \<Rightarrow> fetch_result \<Rightarrow> page" where
  "page_of path stored response =
     \<lparr>pathname = path,
      localStorage = (case stored of None \<Rightarrow> Map.empty | Some l \<Rightarrow> [''preferredLanguage'' \<mapsto> l]),
      elements = [''dynamic-menu'' \<mapsto> []],
      location_href = None, console_warn = [], listeners = 0,
      network = (\<lambda>u. response)\<rparr>"

definition widget_of :: "page \<Rightarrow> menu_data option \<Rightarrow> string \<Rightarrow> widget" where
  "widget_of pg md lang =
     \<lparr>pathname = pathname pg, localStorage = localStorage pg, elements = elements pg,
      location_href = location_href pg, console_warn = console_warn pg,
      listeners = listeners pg, network = network pg,
      menuContainerId = ''dynamic-menu'', menuDataUrl = ''/data/menu.json'',
      menuData = md, currentLang = lang\<rparr>"

definition widget40_of :: "page \<Rightarrow> menu_data option \<Rightarrow> string \<Rightarrow> widget40" where
  "widget40_of pg md lang =
     \<lparr>pathname = pathname pg, localStorage = localStorage pg, elements = elements pg,
      location_href = location_href pg, console_warn = console_warn pg,
      listeners = listeners pg, network = network pg,
      menuContainerId = ''dynamic-menu'', menuDataUrl = ''/data/menu.json'',
      menuData = md, currentLang = lang, closeTimeout = None\<rparr>"

definition example_menu :: menu_data where
  "example_menu =
     \<lparr>reviews = Some [\<lparr>r_label = ''Widget'', r_url = ''/regions/en/reviews/widget.html''\<rparr>],
      languages = Some [\<lparr>l_code = ''en'', l_label = ''English'', l_flag = ''GB''\<rparr>,
                        \<lparr>l_code = ''es'', l_label = ''Espanol'', l_flag = ''ES''\<rparr>]\<rparr>"

definition no_options :: options where
  "no_options = \<lparr>opt_menuContainerId = None, opt_menuDataUrl = None\<rparr>"

section \<open>The review sync script\<close>

subsection \<open>More of the string library\<close>

definition ci_lit :: "string \<Rightarrow> item list" where
  \<comment> \<open>a literal ASCII text under the i flag: each character in either case\<close>
  "ci_lit w = map (\<lambda>c. Ch (Only [lower_char c, upper_char c])) w"

definition ends_with :: "string \<Rightarrow> string \<Rightarrow> bool" where
  \<comment> \<open>\<^verbatim>\<open>s.endsWith(w)\<close>\<close>
  "ends_with s w = starts_with (rev s) (rev w)"

definition js_trim :: "string \<Rightarrow> string" where
  \<comment> \<open>\<^verbatim>\<open>s.trim()\<close>\<close>
  "js_trim s = rev (dropWhile is_space (rev (dropWhile is_space s)))"

function collapse_ws :: "string \<Rightarrow> string" where
  \<comment> \<open>\<^verbatim>\<open>s.replace(/\s+/g, ' ')\<close>: every maximal run of white space becomes one space\<close>
  "collapse_ws [] = []"
| "collapse_ws (c # s) =
     (if is_space c then CHR '' '' # collapse_ws (dropWhile is_space s) else c # collapse_ws s)"
  by pat_completeness auto
termination
  by (relation "measure length") (auto simp: le_imp_less_Suc length_dropWhile_le)

definition split_T :: "string \<Rightarrow> string" where
  \<comment> \<open>\<^verbatim>\<open>s.split('T')[0]\<close>\<close>
  "split_T s = takeWhile (\<lambda>c. c \<noteq> CHR ''T'') s"

fun js_indexOf :: "string \<Rightarrow> string \<Rightarrow> int" where
  \<comment> \<open>\<^verbatim>\<open>s.indexOf(w)\<close>\<close>
  "js_indexOf [] w = (if w = [] then 0 else - 1)"
| "js_indexOf (c # s) w =
     (if starts_with (c # s) w then 0
      else (let i = js_indexOf s w in if i < 0 then - 1 else i + 1))"

definition js_substring :: "string \<Rightarrow> int \<Rightarrow> int \<Rightarrow> string" where
  \<comment> \<open>\<^verbatim>\<open>s.substring(a, b)\<close>: both ends clamped to the text, and swapped when out of order\<close>
  "js_substring s a b =
     (let a' = min (nat a) (length s); b' = min (nat b) (length s)
      in take (max a' b' - min a' b') (drop (min a' b') s))"

definition js_substring_from :: "string \<Rightarrow> int \<Rightarrow> string" where
  \<comment> \<open>\<^verbatim>\<open>s.substring(a)\<close>\<close>
  "js_substring_from s a = js_substring s a (int (length s))"

fun js_join :: "string \<Rightarrow> string list \<Rightarrow> string" where
  \<comment> \<open>\<^verbatim>\<open>xs.join(sep)\<close>\<close>
  "js_join sep [] = []"
| "js_join sep [x] = x"
| "js_join sep (x # y # xs) = x @ sep @ js_join sep (y # xs)"

definition digit_char :: "nat \<Rightarrow> char" where
  "digit_char d = char_of (48 + d)"

fun show_nat :: "nat \<Rightarrow> string" where
  \<comment> \<open>a number in a template literal\<close>
  "show_nat n = (if n < 10 then [digit_char n] else show_nat (n div 10) @ [digit_char (n mod 10)])"

definition hex_char :: "nat \<Rightarrow> char" where
  "hex_char d = (if d < 10 then char_of (48 + d) else char_of (87 + d))"

definition json_char :: "char \<Rightarrow> string" where
  \<comment> \<open>a code unit inside \<^verbatim>\<open>JSON.stringify\<close> of a string\<close>
  "json_char c =
     (if c = CHR 0x22 then [CHR 0x5C, CHR 0x22]
      else if c = CHR 0x5C then [CHR 0x5C, CHR 0x5C]
      else if c = CHR 0x08 then [CHR 0x5C, CHR ''b'']
      else if c = CHR 0x0C then [CHR 0x5C, CHR ''f'']
      else if c = CHR 0x0A then [CHR 0x5C, CHR ''n'']
      else if c = CHR 0x0D then [CHR 0x5C, CHR ''r'']
      else if c = CHR 0x09 then [CHR 0x5C, CHR ''t'']
      else if (of_char c :: nat) < 32
        then [CHR 0x5C, CHR ''u'', CHR ''0'', CHR ''0'', hex_char (of_char c div 16), hex_char (of_char c mod 16)]
      else [c])"

definition json_string :: "string \<Rightarrow> string" where
  \<comment> \<open>\<^verbatim>\<open>JSON.stringify(s)\<close> on a string\<close>
  "json_string s = [CHR 0x22] @ concat (map json_char s) @ [CHR 0x22]"

text \<open>
  \<^verbatim>\<open>a.localeCompare(b)\<close> on the texts the script compares: dates of digits and hyphens in
  one format, where the order of the locale is the order of the code units.
\<close>

definition localeCompare :: "string \<Rightarrow> string \<Rightarrow> int" where
  "localeCompare a b = (if a < b then - 1 else if a = b then 0 else 1)"

text \<open>
  \<^verbatim>\<open>xs.sort(cmp)\<close>: the sort of ECMAScript is stable, so for a comparator that is a total
  preorder its result is the one of the stable insertion sort.
\<close>

fun insert_by :: "('a \<Rightarrow> 'a \<Rightarrow> int) \<Rightarrow> 'a \<Rightarrow> 'a list \<Rightarrow> 'a list" where
  "insert_by cmp x [] = [x]"
| "insert_by cmp x (y # ys) = (if cmp x y \<le> 0 then x # y # ys else y # insert_by cmp x ys)"

fun js_sort :: "('a \<Rightarrow> 'a \<Rightarrow> int) \<Rightarrow> 'a list \<Rightarrow> 'a list" where
  "js_sort cmp [] = []"
| "js_sort cmp (x # xs) = insert_by cmp x (js_sort cmp xs)"

subsection \<open>The files and the process\<close>

text \<open>
  The working tree and the process of one run: the entries of the reviews directory in the
  order of \<^verbatim>\<open>readdirSync\<close> (name and content; an entry \<^verbatim>\<open>index.html\<close> is skipped by
  name), what \<^verbatim>\<open>git log -1 --format=%aI\<close> prints for a file (\<open>None\<close> when the command
  fails), the \<^verbatim>\<open>toISOString\<close> of the clock, the two target files, which exist and are
  readable, the lines written to the two streams, and the files written.
\<close>

record world =
  dir_listing :: "(string \<times> string) list"
  git_log :: "string \<Rightarrow> string option"
  clock :: string
  index_file :: string
  sitemap_file :: string
  out_log :: "string list"
  err_log :: "string list"
  written :: "string list"

text \<open>A step of the script either ends the process with a status or goes on with a value.\<close>

datatype 'a step = Exited nat world | Continue 'a world

record meta =
  m_title :: string
  m_url :: string
  m_category :: string
  m_excerpt :: string
  m_image :: string
  m_date :: string

definition SITE_URL :: string where
  "SITE_URL = ''https://smartbuyreviews.co.uk''"

definition getReviewFiles :: "world \<Rightarrow> (string \<times> string) list" where
  "getReviewFiles w = filter (\<lambda>f. ends_with (fst f) ''.html'' \<and> fst f \<noteq> ''index.html'') (dir_listing w)"

definition re_title :: "item list" where
  \<comment> \<open>\<^verbatim>\<open>/<title>([^<]+)<\/title>/is\<close>\<close>
  "re_title = ci_lit ''<title>'' @ [Open, Rep (Except ''<'') 1 True, Close] @ ci_lit ''</title>''"

definition re_title_suffix :: "item list" where
  \<comment> \<open>\<^verbatim>\<open>/\s*Review\s*-\s*Smart Buy Reviews UK 2026\s*$/i\<close>\<close>
  "re_title_suffix =
     [Rep white 0 True] @ ci_lit ''Review'' @ [Rep white 0 True] @ ci_lit ''-''
     @ [Rep white 0 True] @ ci_lit ''Smart Buy Reviews UK 2026'' @ [Rep white 0 True, Eol]"

definition re_badge :: "item list" where
  \<comment> \<open>\<^verbatim>\<open>/class="badge[^"]*"[^>]*>\s*([^<]+?)\s*<\/span>/i\<close>\<close>
  \<open>re_badge =
     ci_lit ''class="badge'' @ [Rep (Except [CHR 0x22]) 0 True] @ ci_lit [CHR 0x22]
     @ [Rep (Except ''>'') 0 True] @ ci_lit ''>''
     @ [Rep white 0 True, Open, Rep (Except ''<'') 1 False, Close, Rep white 0 True]
     @ ci_lit ''</span>''\<close>

definition re_image :: "item list" where
  \<comment> \<open>\<^verbatim>\<open>/src="(https:\/\/smartbuyreviews-instructions-2026\.s3[^"]+)"/i\<close>\<close>
  \<open>re_image =
     ci_lit ''src="'' @ [Open] @ ci_lit ''https://smartbuyreviews-instructions-2026.s3''
     @ [Rep (Except [CHR 0x22]) 1 True, Close] @ ci_lit [CHR 0x22]\<close>

definition re_description :: "item list" where
  \<comment> \<open>\<^verbatim>\<open>/<meta\s+name="description"\s+content="([^"]+)"/i\<close>\<close>
  \<open>re_description =
     ci_lit ''<meta'' @ [Rep white 1 True] @ ci_lit ''name="description"'' @ [Rep white 1 True]
     @ ci_lit ''content="'' @ [Open, Rep (Except [CHR 0x22]) 1 True, Close] @ ci_lit [CHR 0x22]\<close>

definition re_honest :: "item list" where
  \<comment> \<open>\<^verbatim>\<open>/^Honest review of .+?\.\s*/i\<close>\<close>
  "re_honest =
     [Bol] @ ci_lit ''Honest review of '' @ [Rep (Except [CHR 0x0A, CHR 0x0D]) 1 False] @ ci_lit ''.''
     @ [Rep white 0 True]"

definition re_marker :: "item list" where
  \<comment> \<open>\<^verbatim>\<open>/const reviewsData = \[[\s\S]*?\];\s*\/\/ END REVIEWS DATA/\<close>\<close>
  "re_marker =
     lit ''const reviewsData = ['' @ [Rep (Except []) 0 False] @ lit ''];''
     @ [Rep white 0 True] @ lit ''// END REVIEWS DATA''"

definition re_lastmod :: "item list" where
  \<comment> \<open>\<^verbatim>\<open>/(<loc>https:\/\/smartbuyreviews\.co\.uk\/regions\/en\/reviews\/<\/loc>\s*<lastmod>)[^<]+(<\/lastmod>)/\<close>\<close>
  "re_lastmod =
     [Open] @ lit ''<loc>https://smartbuyreviews.co.uk/regions/en/reviews/</loc>''
     @ [Rep white 0 True] @ lit ''<lastmod>'' @ [Close, Rep (Except ''<'') 1 True, Open]
     @ lit ''</lastmod>'' @ [Close]"

definition today :: "world \<Rightarrow> string" where
  \<comment> \<open>\<^verbatim>\<open>new Date().toISOString().split('T')[0]\<close>\<close>
  "today w = split_T (clock w)"

text \<open>The excerpt of a meta description, the capture of \<open>re_description\<close> (lines 59 to 63).\<close>

definition excerpt_of :: "string \<Rightarrow> string" where
  "excerpt_of desc =
     (let excerpt = js_trim (collapse_ws desc);
          excerpt = js_replace re_honest [] excerpt;
          excerpt = (if excerpt = [] then js_trim (collapse_ws desc) else excerpt)
      in if length excerpt > 120 then js_substring excerpt 0 117 @ ''...'' else excerpt)"

definition extractMeta :: "world \<Rightarrow> string \<times> string \<Rightarrow> meta option" where
  "extractMeta w file =
     (let fileName = fst file;
          html = snd file;
          title = (case js_match re_title html of
                     Some titleMatch \<Rightarrow>
                       js_trim (js_replace re_title_suffix [] (collapse_ws (titleMatch ! 1)))
                   | None \<Rightarrow> [])
      in if title = [] then None
         else
           (let category = (case js_match re_badge html of
                              Some catMatch \<Rightarrow> js_trim (catMatch ! 1)
                            | None \<Rightarrow> ''General'');
                image = (case js_match re_image html of
                           Some imgMatch \<Rightarrow> imgMatch ! 1
                         | None \<Rightarrow> []);
                excerpt = (case js_match re_description html of
                             Some descMatch \<Rightarrow> excerpt_of (descMatch ! 1)
                           | None \<Rightarrow> []);
                date = (case git_log w fileName of
                          Some printed \<Rightarrow>
                            (let gitDate = js_trim printed
                             in if gitDate \<noteq> [] then split_T gitDate else today w)
                        | None \<Rightarrow> today w);
                url = ''/regions/en/reviews/'' @ fileName
            in Some \<lparr>m_title = title, m_url = url, m_category = category,
                      m_excerpt = excerpt, m_image = image, m_date = date\<rparr>))"

definition formatReview :: "meta \<Rightarrow> string" where
  \<comment> \<open>the template of one record of the listing\<close>
  "formatReview r =
     ''      {\<newline>        title: '' @ json_string (m_title r)
     @ '',\<newline>        url: '' @ json_string (m_url r)
     @ '',\<newline>        category: '' @ json_string (m_category r)
     @ '',\<newline>        excerpt: '' @ json_string (m_excerpt r)
     @ '',\<newline>        image: '' @ json_string (m_image r)
     @ '',\<newline>        date: '' @ json_string (m_date r)
     @ ''\<newline>      }''"

definition newBlock :: "meta list \<Rightarrow> string" where
  "newBlock rs =
     ''const reviewsData = [\<newline>'' @ js_join '',\<newline>'' (map formatReview rs)
     @ ''\<newline>    ]; // END REVIEWS DATA''"

definition updateIndex :: "meta list \<Rightarrow> world \<Rightarrow> bool step" where
  "updateIndex rs w =
     (let content = index_file w
      in if \<not> js_test re_marker content
         then Exited 1 (w\<lparr>err_log := err_log w @ [''ERROR: Could not find reviewsData marker in index.html'']\<rparr>)
         else
           (let updated = js_replace re_marker (newBlock rs) content
            in if updated \<noteq> content
               then Continue True
                      (w\<lparr>index_file := updated,
                         written := written w @ [''index.html''],
                         out_log := out_log w @ [''Updated index.html with '' @ show_nat (length rs) @ '' reviews'']\<rparr>)
               else Continue False (w\<lparr>out_log := out_log w @ [''index.html already up to date'']\<rparr>)))"

definition sitemapEntry :: "meta \<Rightarrow> string" where
  \<comment> \<open>the template of one entry of the sitemap\<close>
  "sitemapEntry r =
     ''  <url>\<newline>    <loc>'' @ SITE_URL @ m_url r @ ''</loc>\<newline>    <lastmod>'' @ m_date r
     @ ''</lastmod>\<newline>    <changefreq>monthly</changefreq>\<newline>    <priority>0.7</priority>\<newline>  </url>''"

definition startMarker :: string where
  "startMarker = ''<!-- Reviews - AUTO-GENERATED SECTION START -->''"

definition endMarker :: string where
  "endMarker = ''<!-- Reviews - AUTO-GENERATED SECTION END -->''"

definition updateSitemap :: "meta list \<Rightarrow> world \<Rightarrow> bool step" where
  "updateSitemap rs w =
     (let content = sitemap_file w;
          startIdx = js_indexOf content startMarker;
          endIdx = js_indexOf content endMarker
      in if startIdx = - 1 \<or> endIdx = - 1
         then Exited 1 (w\<lparr>err_log := err_log w @ [''ERROR: Could not find sitemap markers'']\<rparr>)
         else
           (let entries = js_join ''\<newline>'' (map sitemapEntry rs);
                before = js_substring content 0 (startIdx + int (length startMarker));
                after = js_substring_from content endIdx;
                updated = before @ ''\<newline>'' @ entries @ ''\<newline>  '' @ after;
                finalContent = js_replace re_lastmod (''$1'' @ today w @ ''$2'') updated
            in if finalContent \<noteq> content
               then Continue True
                      (w\<lparr>sitemap_file := finalContent,
                         written := written w @ [''sitemap.xml''],
                         out_log := out_log w @ [''Updated sitemap.xml with '' @ show_nat (length rs) @ '' review URLs'']\<rparr>)
               else Continue False (w\<lparr>out_log := out_log w @ [''sitemap.xml already up to date'']\<rparr>)))"

definition collect :: "world \<Rightarrow> meta list" where
  \<comment> \<open>\<^verbatim>\<open>files.map(extractMeta).filter(r => r !== null).sort(...)\<close>, newest first\<close>
  "collect w =
     js_sort (\<lambda>a b. localeCompare (m_date b) (m_date a))
       (map the (filter (\<lambda>r. r \<noteq> None) (map (extractMeta w) (getReviewFiles w))))"

definition main :: "world \<Rightarrow> nat \<times> world" where
  \<comment> \<open>the script; the first component is the exit status of the process\<close>
  "main w0 =
     (let files = getReviewFiles w0;
          w1 = w0\<lparr>out_log := out_log w0 @ [''Found '' @ show_nat (length files) @ '' review files'']\<rparr>;
          rs = collect w0;
          w2 = w1\<lparr>out_log := out_log w1 @ [''Extracted metadata for '' @ show_nat (length rs) @ '' reviews'']\<rparr>
      in case updateIndex rs w2 of
           Exited status w3 \<Rightarrow> (status, w3)
         | Continue indexChanged w3 \<Rightarrow>
             (case updateSitemap rs w3 of
                Exited status w4 \<Rightarrow> (status, w4)
              | Continue sitemapChanged w4 \<Rightarrow>
                  (0, w4\<lparr>out_log := out_log w4 @
                        [if indexChanged \<or> sitemapChanged then ''Files updated successfully''
                         else ''No changes needed'']\<rparr>)))"

definition fresh :: "world \<Rightarrow> world" where
  \<comment> \<open>the working tree a run left, at the start of the next process\<close>
  "fresh w = w\<lparr>out_log := [], err_log := [], written := []\<rparr>"

subsection \<open>The description prefix, in words\<close>




text \<open>The input that a match at the head of a text leaves.\<close>

definition rest :: "item list \<Rightarrow> bool \<Rightarrow> string \<Rightarrow> string option" where
  \<comment> \<open>the input that a match at the head leaves\<close>
  "rest re b s = map_option (\<lambda>ps. drop (length (concat ps)) s) (rx re b s)"

subsection \<open>Example working trees\<close>

definition titled :: "string \<Rightarrow> string" where
  \<comment> \<open>a review page that holds a title only\<close>
  "titled t = ''<title>'' @ t @ '' Review - Smart Buy Reviews UK 2026</title>''"

definition example_index :: string where
  \<open>example_index = ''const reviewsData = [\<newline>]; // END REVIEWS DATA''\<close>

definition example_sitemap :: string where
  \<open>example_sitemap =
     ''<loc>https://smartbuyreviews.co.uk/regions/en/reviews/</loc><lastmod>2024-01-01</lastmod>\<newline>''
     @ ''<!-- Reviews - AUTO-GENERATED SECTION START -->\<newline><!-- Reviews - AUTO-GENERATED SECTION END -->''\<close>

definition example_git :: "(string \<times> string) list \<Rightarrow> string \<Rightarrow> string option" where
  \<comment> \<open>a history: what git prints for the last commit of each tracked file\<close>
  "example_git dates f = map_option (\<lambda>d. d @ ''T10:00:00+00:00\<newline>'') (map_of dates f)"

definition site :: "(string \<times> string) list \<Rightarrow> (string \<times> string) list \<Rightarrow> string \<Rightarrow> string \<Rightarrow> world" where
  \<comment> \<open>a working tree on 2 November 2026, before a run\<close>
  "site files dates index sitemap =
     \<lparr>dir_listing = files, git_log = example_git dates, clock = ''2026-11-02T01:33:00.000Z'',
      index_file = index, sitemap_file = sitemap, out_log = [], err_log = [], written = []\<rparr>"

definition three_reviews :: world where
  "three_reviews =
     site [(''kettle.html'', titled ''Kettle''), (''index.html'', example_index),
           (''lamp.html'', titled ''Lamp''), (''notes.txt'', ''todo''), (''radio.html'', titled ''Radio'')]
          [(''kettle.html'', ''2025-01-05''), (''lamp.html'', ''2026-03-01''), (''radio.html'', ''2024-11-30'')]
          example_index example_sitemap"

definition dollar_review :: world where
  "dollar_review =
     site [(''adapter.html'', titled ''US$&amp;UK Adapter'')] [(''adapter.html'', ''2026-02-10'')]
          example_index example_sitemap"


definition broken_index :: world where
  "broken_index = site [] [] ''<html></html>'' example_sitemap"

definition broken_sitemap :: world where
  "broken_sitemap = site [] [] ''const reviewsData = [1];// END REVIEWS DATA'' ''<urlset></urlset>''"

definition report :: "nat \<times> world \<Rightarrow> nat \<times> string list \<times> string list \<times> string list \<times> string \<times> string" where
  \<comment> \<open>what a run leaves: the status, the two streams, the files written, the two target files\<close>
  "report r = (fst r, out_log (snd r), err_log (snd r), written (snd r), index_file (snd r), sitemap_file (snd r))"

definition extracted :: "world \<Rightarrow> meta list" where
  \<comment> \<open>the records of the review files in the order of the directory, before the sort\<close>
  "extracted w = map the (filter (\<lambda>r. r \<noteq> None) (map (extractMeta w) (getReviewFiles w)))"




section \<open>Properties of the regular expressions\<close>

lemma starts_with_Cons: "starts_with s (c # w) = (case s of [] \<Rightarrow> False | d # s' \<Rightarrow> d = c \<and> starts_with s' w)"
  by (cases s) (auto simp: starts_with_def)

lemma starts_with_Nil [simp]: "starts_with s []"
  by (simp add: starts_with_def)

lemma map_option_append_Nil: "map_option ((@) []) x = x"
  by (cases x) simp_all

lemma rx_lit:
  "rx (lit w @ r) b s =
     (if starts_with s w
      then map_option ((@) (map (\<lambda>c. [c]) w)) (rx r (b \<and> w = []) (drop (length w) s))
      else None)"
proof (induction w arbitrary: s b)
  case Nil
  show ?case by (simp add: lit_def map_option_append_Nil)
next
  case (Cons c w)
  show ?case
  proof (cases s)
    case Nil
    then show ?thesis by (simp add: lit_def starts_with_Cons)
  next
    case (Cons d s')
    with Cons.IH [of False s'] show ?thesis
      by (auto simp: lit_def starts_with_Cons option.map_comp comp_def)
  qed
qed

lemma starts_with_append: "starts_with s w \<longleftrightarrow> (\<exists>t. s = w @ t)"
  unfolding starts_with_def by (metis append_eq_conv_conj append_take_drop_id)

lemma region_at_iff:
  "region_at s \<longleftrightarrow> (\<exists>a b t. s = ''/regions/'' @ [a, b] @ ''/'' @ t \<and> is_lower a \<and> is_lower b)"
proof
  assume r: "region_at s"
  then obtain u where u: "s = ''/regions/'' @ u"
    unfolding region_at_def starts_with_append by blast
  with r show "\<exists>a b t. s = ''/regions/'' @ [a, b] @ ''/'' @ t \<and> is_lower a \<and> is_lower b"
    by (auto simp: region_at_def split: list.splits)
next
  assume "\<exists>a b t. s = ''/regions/'' @ [a, b] @ ''/'' @ t \<and> is_lower a \<and> is_lower b"
  then show "region_at s"
    by (auto simp: region_at_def starts_with_def)
qed

lemma rx_region:
  "rx re_region b s = (if region_at s then Some (map (\<lambda>c. [c]) (take 12 s)) else None)"
proof (cases "starts_with s ''/regions/''")
  case False
  then show ?thesis by (simp add: re_region_def rx_lit region_at_def)
next
  case True
  then obtain u where u: "s = ''/regions/'' @ u"
    unfolding starts_with_append by blast
  show ?thesis
    unfolding re_region_def rx_lit u
    by (auto simp: region_at_def starts_with_def lit_def is_lower_def split: list.splits)
qed

lemma rx_region_cap:
  "rx re_region_cap b s =
     (if region_at s
      then Some (map (\<lambda>c. [c]) (take 9 s) @ [[], [s ! 9], [s ! 10], [], [s ! 11]])
      else None)"
proof (cases "starts_with s ''/regions/''")
  case False
  then show ?thesis by (simp add: re_region_cap_def rx_lit region_at_def)
next
  case True
  then obtain u where u: "s = ''/regions/'' @ u"
    unfolding starts_with_append by blast
  show ?thesis
    unfolding re_region_cap_def rx_lit u
    by (auto simp: region_at_def starts_with_def lit_def is_lower_def split: list.splits)
qed

lemma first_region_Some:
  "first_region s = Some i \<Longrightarrow> i < length s \<and> region_at (drop i s) \<and> (\<forall>j<i. \<not> region_at (drop j s))"
proof (induction s arbitrary: i)
  case Nil
  then show ?case by simp
next
  case (Cons c s)
  show ?case
  proof (cases "region_at (c # s)")
    case True
    with Cons.prems show ?thesis by simp
  next
    case False
    with Cons.prems obtain k where k: "first_region s = Some k" "i = Suc k"
      by auto
    from Cons.IH [OF k(1)] False k(2) show ?thesis
      by (auto simp: less_Suc_eq_0_disj)
  qed
qed

lemma first_region_None:
  "first_region s = None \<Longrightarrow> \<not> region_at (drop j s)"
proof (induction s arbitrary: j)
  case Nil
  then show ?case by (simp add: region_at_def starts_with_def)
next
  case (Cons c s)
  then show ?case
    by (cases j) (auto split: if_splits)
qed

lemma rx_search_region:
  "rx_search re_region b s =
     (case first_region s of
        None \<Rightarrow> None
      | Some i \<Rightarrow> Some (i, map (\<lambda>c. [c]) (take 12 (drop i s))))"
proof (induction s arbitrary: b)
  case Nil
  show ?case by (simp add: rx_region region_at_def starts_with_def)
next
  case (Cons c s)
  show ?case
  proof (cases "region_at (c # s)")
    case True
    then show ?thesis
      by (simp add: rx_region)
  next
    case False
    then show ?thesis
      by (simp add: rx_region Cons.IH split: option.splits)
  qed
qed

lemma rx_search_region_cap:
  "rx_search re_region_cap b s =
     (case first_region s of
        None \<Rightarrow> None
      | Some i \<Rightarrow>
          Some (i, map (\<lambda>c. [c]) (take 9 (drop i s))
                   @ [[], [drop i s ! 9], [drop i s ! 10], [], [drop i s ! 11]]))"
proof (induction s arbitrary: b)
  case Nil
  show ?case by (simp add: rx_region_cap region_at_def starts_with_def)
next
  case (Cons c s)
  show ?case
  proof (cases "region_at (c # s)")
    case True
    then show ?thesis
      by (simp add: rx_region_cap)
  next
    case False
    then show ?thesis
      by (simp add: rx_region_cap Cons.IH split: option.splits)
  qed
qed

lemma region_at_nth:
  "region_at s \<longleftrightarrow>
     12 \<le> length s \<and> s ! 0 = CHR ''/'' \<and> s ! 1 = CHR ''r'' \<and> s ! 2 = CHR ''e'' \<and> s ! 3 = CHR ''g'' \<and>
     s ! 4 = CHR ''i'' \<and> s ! 5 = CHR ''o'' \<and> s ! 6 = CHR ''n'' \<and> s ! 7 = CHR ''s'' \<and> s ! 8 = CHR ''/'' \<and>
     is_lower (s ! 9) \<and> is_lower (s ! 10) \<and> s ! 11 = CHR ''/''"
proof
  assume "region_at s"
  then obtain a b t where "s = ''/regions/'' @ [a, b] @ ''/'' @ t" "is_lower a" "is_lower b"
    unfolding region_at_iff by blast
  then show "12 \<le> length s \<and> s ! 0 = CHR ''/'' \<and> s ! 1 = CHR ''r'' \<and> s ! 2 = CHR ''e'' \<and> s ! 3 = CHR ''g'' \<and>
     s ! 4 = CHR ''i'' \<and> s ! 5 = CHR ''o'' \<and> s ! 6 = CHR ''n'' \<and> s ! 7 = CHR ''s'' \<and> s ! 8 = CHR ''/'' \<and>
     is_lower (s ! 9) \<and> is_lower (s ! 10) \<and> s ! 11 = CHR ''/''"
    by simp
next
  assume a: "12 \<le> length s \<and> s ! 0 = CHR ''/'' \<and> s ! 1 = CHR ''r'' \<and> s ! 2 = CHR ''e'' \<and> s ! 3 = CHR ''g'' \<and>
     s ! 4 = CHR ''i'' \<and> s ! 5 = CHR ''o'' \<and> s ! 6 = CHR ''n'' \<and> s ! 7 = CHR ''s'' \<and> s ! 8 = CHR ''/'' \<and>
     is_lower (s ! 9) \<and> is_lower (s ! 10) \<and> s ! 11 = CHR ''/''"
  then have "s = take 12 s @ drop 12 s" by simp
  moreover have "take 12 s = [s ! 0, s ! 1, s ! 2, s ! 3, s ! 4, s ! 5, s ! 6, s ! 7, s ! 8, s ! 9, s ! 10, s ! 11]"
    using a by (auto simp: list_eq_iff_nth_eq nth_Cons' less_Suc_eq numeral_eq_Suc)
  ultimately have "s = ''/regions/'' @ [s ! 9, s ! 10] @ ''/'' @ drop 12 s"
    using a by (metis append_Cons append_Nil)
  with a show "region_at s"
    unfolding region_at_iff by blast
qed

lemma not_lower_slash: "\<not> is_lower CHR ''/''"
  by (simp add: is_lower_def lower_case_def)

lemma region_at_shifted:
  assumes "region_at (q @ ''/regions/'' @ [a, b] @ ''/'' @ t)" and "q \<noteq> []"
  shows "region_at (q @ ''/regions/'' @ [a', b'] @ ''/'' @ t')"
proof -
  let ?n = "length q"
  consider "12 \<le> ?n" | "?n = 11" | "?n = 10" | "?n = 9" | "?n = 8" | "0 < ?n \<and> ?n < 8"
    using assms(2) by (cases q) (auto, arith)
  then show ?thesis
  proof cases
    case 1
    with assms show ?thesis by (auto simp: region_at_nth nth_append)
  next
    case 2
    with assms show ?thesis by (auto simp: region_at_nth nth_append)
  next
    case 3
    with assms show ?thesis by (auto simp: region_at_nth nth_append not_lower_slash)
  next
    case 4
    with assms show ?thesis by (auto simp: region_at_nth nth_append not_lower_slash)
  next
    case 5
    with assms show ?thesis by (auto simp: region_at_nth nth_append)
  next
    case 6
    let ?s = "q @ ''/regions/'' @ [a, b] @ ''/'' @ t"
    have at_n: "?s ! ?n = CHR ''/''"
      by (simp add: nth_append)
    from assms(1) have r: "?s ! 1 = CHR ''r''" "?s ! 2 = CHR ''e''" "?s ! 3 = CHR ''g''"
      "?s ! 4 = CHR ''i''" "?s ! 5 = CHR ''o''" "?s ! 6 = CHR ''n''" "?s ! 7 = CHR ''s''"
      unfolding region_at_nth by blast+
    from 6 consider "?n = 1" | "?n = 2" | "?n = 3" | "?n = 4" | "?n = 5" | "?n = 6" | "?n = 7"
      by arith
    then have False
      using at_n r by cases simp_all
    then show ?thesis ..
  qed
qed

lemma first_region_eqI:
  "region_at (drop i s) \<Longrightarrow> (\<forall>j<i. \<not> region_at (drop j s)) \<Longrightarrow> first_region s = Some i"
proof (induction s arbitrary: i)
  case Nil
  then show ?case by (simp add: region_at_def starts_with_def)
next
  case (Cons c s)
  show ?case
  proof (cases i)
    case 0
    with Cons.prems show ?thesis by simp
  next
    case (Suc k)
    with Cons.prems have "\<not> region_at (c # s)" by auto
    moreover have "first_region s = Some k"
    proof (rule Cons.IH)
      show "region_at (drop k s)" using Cons.prems Suc by simp
      show "\<forall>j<k. \<not> region_at (drop j s)"
      proof (intro allI impI)
        fix j assume "j < k"
        then have "Suc j < i" using Suc by simp
        with Cons.prems(2) have "\<not> region_at (drop (Suc j) (c # s))" by blast
        then show "\<not> region_at (drop j s)" by simp
      qed
    qed
    ultimately show ?thesis using Suc by simp
  qed
qed

lemma first_region_split:
  assumes "first_region s = Some i"
  obtains a b where "is_lower a" "is_lower b"
    and "s = take i s @ ''/regions/'' @ [a, b] @ ''/'' @ drop (i + 12) s"
proof -
  from first_region_Some [OF assms] have i: "i < length s" and r: "region_at (drop i s)"
    by simp_all
  from r obtain a b t where d: "drop i s = ''/regions/'' @ [a, b] @ ''/'' @ t" and l: "is_lower a" "is_lower b"
    unfolding region_at_iff by blast
  have "drop (i + 12) s = drop 12 (drop i s)"
    by (simp add: add.commute)
  also have "\<dots> = t" unfolding d by simp
  finally have t: "drop (i + 12) s = t" .
  have "s = take i s @ drop i s" by simp
  then have "s = take i s @ ''/regions/'' @ [a, b] @ ''/'' @ drop (i + 12) s"
    unfolding d t by simp
  with l that show thesis by blast
qed

lemma first_region_subst:
  assumes f: "first_region s = Some i" and l: "is_lower a'" "is_lower b'"
  shows "first_region (take i s @ ''/regions/'' @ [a', b'] @ ''/'' @ drop (i + 12) s) = Some i"
proof (rule first_region_eqI)
  from first_region_Some [OF f] have i: "i < length s" and no: "\<forall>j<i. \<not> region_at (drop j s)"
    by simp_all
  from first_region_split [OF f] obtain a b
    where s: "s = take i s @ ''/regions/'' @ [a, b] @ ''/'' @ drop (i + 12) s"
    by blast
  let ?s' = "take i s @ ''/regions/'' @ [a', b'] @ ''/'' @ drop (i + 12) s"
  have "drop i ?s' = ''/regions/'' @ [a', b'] @ ''/'' @ drop (i + 12) s"
    using i by simp
  with l show "region_at (drop i ?s')"
    unfolding region_at_iff by blast
  show "\<forall>j<i. \<not> region_at (drop j ?s')"
  proof (intro allI impI notI)
    fix j assume j: "j < i" and r: "region_at (drop j ?s')"
    let ?q = "drop j (take i s)"
    have q: "?q \<noteq> []" using j i by simp
    have "drop j ?s' = ?q @ ''/regions/'' @ [a', b'] @ ''/'' @ drop (i + 12) s"
      using j i by simp
    with r have "region_at (?q @ ''/regions/'' @ [a', b'] @ ''/'' @ drop (i + 12) s)"
      by simp
    from region_at_shifted [OF this q, of a b "drop (i + 12) s"]
    have "region_at (drop j (take i s @ ''/regions/'' @ [a, b] @ ''/'' @ drop (i + 12) s))"
      using j i by simp
    with s have "region_at (drop j s)" by simp
    with no j show False by blast
  qed
qed

lemma subst_region_idem:
  assumes "is_lang_code l"
  shows "subst_region l (subst_region l s) = subst_region l s"
proof (cases "first_region s")
  case None
  then show ?thesis by (simp add: subst_region_def)
next
  case (Some i)
  from assms obtain a' b' where l: "l = [a', b']" "is_lower a'" "is_lower b'"
    by (cases l; cases "tl l") (auto simp: is_lang_code_def)
  from first_region_Some [OF Some] have i: "i < length s" by simp
  have s': "subst_region l s = take i s @ ''/regions/'' @ [a', b'] @ ''/'' @ drop (i + 12) s"
    using Some l by (simp add: subst_region_def)
  have f': "first_region (subst_region l s) = Some i"
    unfolding s' using first_region_subst [OF Some l(2,3)] .
  have "subst_region l (subst_region l s) =
          take i (subst_region l s) @ ''/regions/'' @ l @ ''/'' @ drop (i + 12) (subst_region l s)"
    using f' by (simp add: subst_region_def)
  also have "take i (subst_region l s) = take i s"
    unfolding s' using i by simp
  also have "drop (i + 12) (subst_region l s) = drop (i + 12) s"
    unfolding s' using i by (simp add: min_def)
  finally show ?thesis using s' l by simp
qed

lemma get_substitution_plain:
  "CHR ''$'' \<notin> set r \<Longrightarrow> get_substitution m pre post cs r = r"
proof (induction r rule: length_induct)
  case (1 r)
  show ?case
  proof (cases r)
    case Nil
    then show ?thesis by simp
  next
    case (Cons c r')
    note c = this
    show ?thesis
    proof (cases r')
      case Nil
      with c show ?thesis by simp
    next
      case (Cons d t)
      with c 1 have "c \<noteq> CHR ''$''" and "get_substitution m pre post cs (d # t) = d # t"
        by auto
      with c Cons show ?thesis by simp
    qed
  qed
qed

lemma caps_no_group: "Open \<notin> set re \<Longrightarrow> caps re ps = []"
  by (induction re ps rule: caps.induct) auto

lemma js_replace_region:
  "js_replace re_region repl s =
     (case first_region s of
        None \<Rightarrow> s
      | Some i \<Rightarrow>
          take i s @ get_substitution (take 12 (drop i s)) (take i s) (drop (i + 12) s) [] repl
          @ drop (i + 12) s)"
proof (cases "first_region s")
  case None
  then show ?thesis by (simp add: js_replace_def rx_search_region)
next
  case (Some i)
  have "Open \<notin> set re_region"
    by (simp add: re_region_def lit_def)
  then have c: "caps re_region ps = []" for ps
    by (rule caps_no_group)
  from first_region_Some [OF Some] have "region_at (drop i s)" by simp
  then obtain a b t where "drop i s = ''/regions/'' @ [a, b] @ ''/'' @ t"
    unfolding region_at_iff by blast
  then have "length (drop i s) = length (''/regions/'' @ [a, b] @ ''/'' @ t)"
    by (rule arg_cong)
  then have l: "length (take 12 (drop i s)) = 12" by simp
  show ?thesis
    using Some l by (simp add: js_replace_def rx_search_region c concat_map_singleton Let_def)
qed

lemma js_replace_region_plain:
  "CHR ''$'' \<notin> set lang \<Longrightarrow>
     js_replace re_region (''/regions/'' @ lang @ ''/'') s = subst_region lang s"
  by (simp add: js_replace_region subst_region_def get_substitution_plain split: option.splits)

lemma js_match_region_cap:
  "js_match re_region_cap s =
     (case first_region s of
        None \<Rightarrow> None
      | Some i \<Rightarrow> Some [take 12 (drop i s), take 2 (drop (i + 9) s)])"
proof (cases "first_region s")
  case None
  then show ?thesis by (simp add: js_match_def rx_search_region_cap)
next
  case (Some i)
  from first_region_Some [OF Some] have i: "i < length s" and r: "region_at (drop i s)"
    by simp_all
  from r obtain a b t where d: "drop i s = ''/regions/'' @ [a, b] @ ''/'' @ t"
    unfolding region_at_iff by blast
  have e: "drop (i + 9) s = drop 9 (drop i s)"
    by (simp add: add.commute)
  have "rx_search re_region_cap True s =
          Some (i, map (\<lambda>c. [c]) ''/regions/'' @ [[], [a], [b], [], ''/''])"
    using Some by (simp add: rx_search_region_cap d)
  then show ?thesis
    using Some by (simp add: js_match_def re_region_cap_def lit_def e d)
qed

section \<open>Properties of the navigation menu widget\<close>

lemma not_lower_dollar: "\<not> is_lower CHR ''$''"
  by (simp add: is_lower_def lower_case_def)

lemma lang_code_plain: "is_lang_code l \<Longrightarrow> CHR ''$'' \<notin> set l"
  using not_lower_dollar by (auto simp: is_lang_code_def list_all_iff)

lemma getLocalizedUrl_v31_subst:
  "CHR ''$'' \<notin> set (currentLang w) \<Longrightarrow> getLocalizedUrl_v31 w url = subst_region (currentLang w) url"
  unfolding getLocalizedUrl_v31_def by (rule js_replace_region_plain)

lemma getLocalizedUrl_v40_subst:
  "CHR ''$'' \<notin> set (currentLang v) \<Longrightarrow> getLocalizedUrl_v40 v url = subst_region (currentLang v) url"
  unfolding getLocalizedUrl_v40_def by (rule js_replace_region_plain)

lemma reviewLinks_v31_map:
  \<open>reviewLinks_v31 w revs =
     concat (map (\<lambda>r. ''<li class="menu-submenu-item">\<newline>          <a href="'' @ getLocalizedUrl_v31 w (r_url r) @ ''" class="menu-submenu-link block px-4 py-2 text-slate-200 hover:bg-slate-700 hover:text-white transition-colors">'' @ r_label r @ ''</a>\<newline>        </li>'') revs)\<close>
  by (induction revs) simp_all

lemma reviewLinks_v40_map:
  \<open>reviewLinks_v40 v revs =
     concat (map (\<lambda>r. ''<a href="'' @ getLocalizedUrl_v40 v (r_url r) @ ''" class="block px-4 py-2 text-gray-600 hover:bg-gray-50 hover:text-gray-900 text-sm no-underline transition-colors">'' @ r_label r @ ''</a>'') revs)\<close>
  by (induction revs) simp_all

lemma buildMenuHtml_v31_reviews:
  assumes "menuData w = Some md" "reviews md = Some revs" "revs \<noteq> []"
  shows "\<exists>pre post. buildMenuHtml_v31 w = pre @ reviewLinks_v31 w revs @ post"
proof -
  have \<open>\<exists>post. buildMenuHtml_v31 w = (''<ul class="menu-list flex flex-wrap items-center gap-4 lg:gap-6">'' @ ''<li class="menu-item"><a href="/" class="menu-link text-white hover:text-slate-200 transition-colors">Home</a></li>'' @ ''<li class="menu-item menu-item--with-children relative">\<newline>        <button class="menu-link menu-link--parent text-white hover:text-slate-200 transition-colors flex items-center gap-1">\<newline>          Reviews\<newline>          <svg class="w-4 h-4" fill="none" stroke="currentColor" viewBox="0 0 24 24"><path stroke-linecap="round" stroke-linejoin="round" stroke-width="2" d="M19 9l-7 7-7-7"></path></svg>\<newline>        </button>\<newline>        <ul class="menu-submenu absolute top-full left-0 mt-2 bg-slate-800 rounded-lg shadow-xl py-2 min-w-[250px] hidden z-50">'') @ reviewLinks_v31 w revs @ post\<close>
    using assms by (simp add: buildMenuHtml_v31_def Let_def)
  then show ?thesis by blast
qed

lemma buildMenuHtml_v40_reviews:
  assumes "menuData v = Some md" "reviews md = Some revs" "revs \<noteq> []"
  shows "\<exists>pre post. buildMenuHtml_v40 v = pre @ reviewLinks_v40 v revs @ post"
proof -
  have \<open>\<exists>post. buildMenuHtml_v40 v = (''<nav class="flex items-center gap-6">'' @ ''<a href="/" class="text-gray-600 hover:text-gray-900 text-sm font-medium transition-colors no-underline">Home</a>'' @ ''<div class="relative group">\<newline>        <button class="text-gray-600 hover:text-gray-900 text-sm font-medium transition-colors flex items-center gap-1">\<newline>          Reviews\<newline>          <svg class="w-4 h-4 transition-transform group-hover:rotate-180" fill="none" stroke="currentColor" viewBox="0 0 24 24"><path stroke-linecap="round" stroke-linejoin="round" stroke-width="2" d="M19 9l-7 7-7-7"></path></svg>\<newline>        </button>\<newline>        <div class="menu-dropdown absolute top-full right-0 pt-2 hidden z-50">\<newline>          <div class="bg-white rounded-xl shadow-lg border border-gray-100 py-2 min-w-[260px]">'') @ reviewLinks_v40 v revs @ post\<close>
    using assms by (simp add: buildMenuHtml_v40_def Let_def)
  then show ?thesis by blast
qed

text \<open>
  C7. For an active language without a \<^verbatim>\<open>$\<close> (every language code), the target of
  each link of the Reviews dropdown is the stored URL of the entry with its (leftmost)
  \<^verbatim>\<open>/regions/{two lowercase letters}/\<close> segment replaced by
  \<^verbatim>\<open>/regions/{currentLang}/\<close>; the dropdown of the menu is the sequence of these links.
  Both variants.
\<close>

theorem C7_review_links_localized:
  \<open>CHR ''$'' \<notin> set (currentLang w) \<and> CHR ''$'' \<notin> set (currentLang v) \<longrightarrow>
     getLocalizedUrl_v31 w url = subst_region (currentLang w) url
   \<and> getLocalizedUrl_v40 v url = subst_region (currentLang v) url
   \<and> reviewLinks_v31 w revs =
       concat (map (\<lambda>r. ''<li class="menu-submenu-item">\<newline>          <a href="'' @ subst_region (currentLang w) (r_url r) @ ''" class="menu-submenu-link block px-4 py-2 text-slate-200 hover:bg-slate-700 hover:text-white transition-colors">'' @ r_label r @ ''</a>\<newline>        </li>'') revs)
   \<and> reviewLinks_v40 v revs =
       concat (map (\<lambda>r. ''<a href="'' @ subst_region (currentLang v) (r_url r) @ ''" class="block px-4 py-2 text-gray-600 hover:bg-gray-50 hover:text-gray-900 text-sm no-underline transition-colors">'' @ r_label r @ ''</a>'') revs)
   \<and> (menuData w = Some md \<and> reviews md = Some revs \<and> revs \<noteq> [] \<longrightarrow>
        (\<exists>pre post. buildMenuHtml_v31 w = pre @ reviewLinks_v31 w revs @ post))
   \<and> (menuData v = Some md \<and> reviews md = Some revs \<and> revs \<noteq> [] \<longrightarrow>
        (\<exists>pre post. buildMenuHtml_v40 v = pre @ reviewLinks_v40 v revs @ post))\<close>
proof (intro impI, elim conjE)
  assume w: "CHR ''$'' \<notin> set (currentLang w)" and v: "CHR ''$'' \<notin> set (currentLang v)"
  show \<open>getLocalizedUrl_v31 w url = subst_region (currentLang w) url
   \<and> getLocalizedUrl_v40 v url = subst_region (currentLang v) url
   \<and> reviewLinks_v31 w revs =
       concat (map (\<lambda>r. ''<li class="menu-submenu-item">\<newline>          <a href="'' @ subst_region (currentLang w) (r_url r) @ ''" class="menu-submenu-link block px-4 py-2 text-slate-200 hover:bg-slate-700 hover:text-white transition-colors">'' @ r_label r @ ''</a>\<newline>        </li>'') revs)
   \<and> reviewLinks_v40 v revs =
       concat (map (\<lambda>r. ''<a href="'' @ subst_region (currentLang v) (r_url r) @ ''" class="block px-4 py-2 text-gray-600 hover:bg-gray-50 hover:text-gray-900 text-sm no-underline transition-colors">'' @ r_label r @ ''</a>'') revs)
   \<and> (menuData w = Some md \<and> reviews md = Some revs \<and> revs \<noteq> [] \<longrightarrow>
        (\<exists>pre post. buildMenuHtml_v31 w = pre @ reviewLinks_v31 w revs @ post))
   \<and> (menuData v = Some md \<and> reviews md = Some revs \<and> revs \<noteq> [] \<longrightarrow>
        (\<exists>pre post. buildMenuHtml_v40 v = pre @ reviewLinks_v40 v revs @ post))\<close>
    using buildMenuHtml_v31_reviews [of w md revs] buildMenuHtml_v40_reviews [of v md revs]
    by (simp add: getLocalizedUrl_v31_subst [OF w] getLocalizedUrl_v40_subst [OF v]
        reviewLinks_v31_map reviewLinks_v40_map)
qed

text \<open>
  C10. When the active language is two lowercase letters, \<^verbatim>\<open>getLocalizedUrl\<close> applied
  twice is \<^verbatim>\<open>getLocalizedUrl\<close> applied once, and a URL without a region segment is
  returned as it is.  Both variants.
\<close>

theorem C10_getLocalizedUrl_idempotent:
  "(is_lang_code (currentLang w) \<longrightarrow>
      getLocalizedUrl_v31 w (getLocalizedUrl_v31 w url) = getLocalizedUrl_v31 w url
      \<and> (first_region url = None \<longrightarrow> getLocalizedUrl_v31 w url = url))
   \<and> (is_lang_code (currentLang v) \<longrightarrow>
      getLocalizedUrl_v40 v (getLocalizedUrl_v40 v url) = getLocalizedUrl_v40 v url
      \<and> (first_region url = None \<longrightarrow> getLocalizedUrl_v40 v url = url))"
  by (simp add: getLocalizedUrl_v31_subst getLocalizedUrl_v40_subst lang_code_plain subst_region_idem)
     (simp add: subst_region_def)

lemma js_replace_region_plain_cons:
  "CHR ''$'' \<notin> set lang \<Longrightarrow>
     js_replace re_region (CHR ''/'' # CHR ''r'' # CHR ''e'' # CHR ''g'' # CHR ''i'' # CHR ''o'' # CHR ''n'' # CHR ''s'' # CHR ''/'' # lang @ ''/'') s
       = subst_region lang s"
  using js_replace_region_plain [of lang s] by simp

text \<open>
  C8. Switching to a language (a code without a \<^verbatim>\<open>$\<close>) stores it as
  \<^verbatim>\<open>preferredLanguage\<close>.  On a path that contains \<^verbatim>\<open>/regions/\<close> the widget then
  navigates to the path with its region segment replaced by the one of the new language,
  and leaves the active language, the markup and the handlers as they are.  On any other
  path it does not navigate, makes the new language the active one and renders the menu
  again: the container (when the page has one) holds the menu built for the new language and
  the stored preference, and the handlers are attached once more.  Both variants.
\<close>

theorem C8_switchLanguage:
  "CHR ''$'' \<notin> set newLang \<longrightarrow>
     (localStorage (switchLanguage_v31 newLang w) ''preferredLanguage'' = Some newLang
      \<and> (js_includes (pathname w) ''/regions/'' \<longrightarrow>
            location_href (switchLanguage_v31 newLang w) = Some (subst_region newLang (pathname w))
          \<and> currentLang (switchLanguage_v31 newLang w) = currentLang w
          \<and> elements (switchLanguage_v31 newLang w) = elements w
          \<and> listeners (switchLanguage_v31 newLang w) = listeners w)
      \<and> (\<not> js_includes (pathname w) ''/regions/'' \<longrightarrow>
            location_href (switchLanguage_v31 newLang w) = location_href w
          \<and> currentLang (switchLanguage_v31 newLang w) = newLang
          \<and> elements (switchLanguage_v31 newLang w) =
              (case elements w (menuContainerId w) of
                 None \<Rightarrow> elements w
               | Some old \<Rightarrow>
                   (elements w)(menuContainerId w \<mapsto>
                      buildMenuHtml_v31
                        (w\<lparr>localStorage := (localStorage w)(''preferredLanguage'' \<mapsto> newLang),
                           currentLang := newLang\<rparr>)))
          \<and> listeners (switchLanguage_v31 newLang w) =
              (case elements w (menuContainerId w) of
                 None \<Rightarrow> listeners w
               | Some old \<Rightarrow> Suc (listeners w))
          \<and> switchLanguage_v31 newLang w =
              renderMenu_v31 (w\<lparr>localStorage := (localStorage w)(''preferredLanguage'' \<mapsto> newLang),
                               currentLang := newLang\<rparr>)))
   \<and> (localStorage (switchLanguage_v40 newLang v) ''preferredLanguage'' = Some newLang
      \<and> (js_includes (pathname v) ''/regions/'' \<longrightarrow>
            location_href (switchLanguage_v40 newLang v) = Some (subst_region newLang (pathname v))
          \<and> currentLang (switchLanguage_v40 newLang v) = currentLang v
          \<and> elements (switchLanguage_v40 newLang v) = elements v
          \<and> listeners (switchLanguage_v40 newLang v) = listeners v)
      \<and> (\<not> js_includes (pathname v) ''/regions/'' \<longrightarrow>
            location_href (switchLanguage_v40 newLang v) = location_href v
          \<and> currentLang (switchLanguage_v40 newLang v) = newLang
          \<and> elements (switchLanguage_v40 newLang v) =
              (case elements v (menuContainerId v) of
                 None \<Rightarrow> elements v
               | Some old \<Rightarrow>
                   (elements v)(menuContainerId v \<mapsto>
                      buildMenuHtml_v40
                        (v\<lparr>localStorage := (localStorage v)(''preferredLanguage'' \<mapsto> newLang),
                           currentLang := newLang\<rparr>)))
          \<and> listeners (switchLanguage_v40 newLang v) =
              (case elements v (menuContainerId v) of
                 None \<Rightarrow> listeners v
               | Some old \<Rightarrow> Suc (listeners v))
          \<and> switchLanguage_v40 newLang v =
              renderMenu_v40 (v\<lparr>localStorage := (localStorage v)(''preferredLanguage'' \<mapsto> newLang),
                               currentLang := newLang\<rparr>)))"
  by (simp add: switchLanguage_v31_def switchLanguage_v40_def Let_def js_replace_region_plain_cons
      renderMenu_v31_def renderMenu_v40_def attachEventListeners_v31_def attachEventListeners_v40_def
      split: option.splits)

lemma truncate_fields:
  "pathname (widget.truncate v) = pathname v" "localStorage (widget.truncate v) = localStorage v"
  "elements (widget.truncate v) = elements v" "location_href (widget.truncate v) = location_href v"
  "console_warn (widget.truncate v) = console_warn v" "listeners (widget.truncate v) = listeners v"
  "network (widget.truncate v) = network v" "menuContainerId (widget.truncate v) = menuContainerId v"
  "menuDataUrl (widget.truncate v) = menuDataUrl v" "menuData (widget.truncate v) = menuData v"
  "currentLang (widget.truncate v) = currentLang v"
  by (simp_all add: widget.truncate_def widget.defs page.defs)

lemma currentLang_loadMenuData_v31: "currentLang (loadMenuData_v31 w) = currentLang w"
  by (simp add: loadMenuData_v31_def renderMenu_v31_def renderFallbackMenu_v31_def
      attachEventListeners_v31_def split: fetch_result.splits option.splits)

lemma currentLang_loadMenuData_v40: "currentLang (loadMenuData_v40 w) = currentLang w"
  by (simp add: loadMenuData_v40_def renderMenu_v40_def renderFallbackMenu_v40_def
      attachEventListeners_v40_def split: fetch_result.splits option.splits)

text \<open>
  C9. On the same page, stored preference and configuration, v3.1 and v4.0 detect the same
  language, localise a review URL to the same text, and switch language to the same outcome:
  the same stored preference, the same navigation, the same active language, the same number
  of renderings, and the same elements outside the container (whose markup differs by theme).
\<close>

theorem C9_variants_equivalent:
  "detectLanguage_v40 pg = detectLanguage_v31 pg
   \<and> currentLang (new_v40 opts pg) = currentLang (new_v31 opts pg)
   \<and> getLocalizedUrl_v40 v url = getLocalizedUrl_v31 (widget.truncate v) url
   \<and> localStorage (switchLanguage_v40 newLang v) = localStorage (switchLanguage_v31 newLang (widget.truncate v))
   \<and> location_href (switchLanguage_v40 newLang v) = location_href (switchLanguage_v31 newLang (widget.truncate v))
   \<and> currentLang (switchLanguage_v40 newLang v) = currentLang (switchLanguage_v31 newLang (widget.truncate v))
   \<and> listeners (switchLanguage_v40 newLang v) = listeners (switchLanguage_v31 newLang (widget.truncate v))
   \<and> (elements (switchLanguage_v40 newLang v))(menuContainerId v := None) =
       (elements (switchLanguage_v31 newLang (widget.truncate v)))(menuContainerId v := None)
   \<and> dom (elements (switchLanguage_v40 newLang v)) = dom (elements (switchLanguage_v31 newLang (widget.truncate v)))"
proof -
  have d: "detectLanguage_v40 pg = detectLanguage_v31 pg"
    by (simp add: detectLanguage_v31_def detectLanguage_v40_def)
  have n: "currentLang (new_v40 opts pg) = currentLang (new_v31 opts pg)"
    by (simp add: new_v31_def new_v40_def currentLang_loadMenuData_v31 currentLang_loadMenuData_v40 d)
  have g: "getLocalizedUrl_v40 v url = getLocalizedUrl_v31 (widget.truncate v) url"
    by (simp add: getLocalizedUrl_v31_def getLocalizedUrl_v40_def truncate_fields)
  have s: "localStorage (switchLanguage_v40 newLang v) = localStorage (switchLanguage_v31 newLang (widget.truncate v))
     \<and> location_href (switchLanguage_v40 newLang v) = location_href (switchLanguage_v31 newLang (widget.truncate v))
     \<and> currentLang (switchLanguage_v40 newLang v) = currentLang (switchLanguage_v31 newLang (widget.truncate v))
     \<and> listeners (switchLanguage_v40 newLang v) = listeners (switchLanguage_v31 newLang (widget.truncate v))
     \<and> (elements (switchLanguage_v40 newLang v))(menuContainerId v := None) =
       (elements (switchLanguage_v31 newLang (widget.truncate v)))(menuContainerId v := None)
     \<and> dom (elements (switchLanguage_v40 newLang v)) = dom (elements (switchLanguage_v31 newLang (widget.truncate v)))"
    by (simp add: switchLanguage_v31_def switchLanguage_v40_def Let_def truncate_fields
        renderMenu_v31_def renderMenu_v40_def attachEventListeners_v31_def attachEventListeners_v40_def
        split: option.splits)
  from d n g s show ?thesis by blast
qed

lemma fallback_v31_anchors:
  "anchors buildFallbackHtml_v31 =
     [(''/'', ''Home''), (''/about.html'', ''About''), (''/privacy-policy.html'', ''Privacy Policy'')]"
  by code_simp

lemma fallback_v40_anchors:
  "anchors buildFallbackHtml_v40 = [(''/'', ''Home''), (''/about.html'', ''About'')]"
  by code_simp

lemma fallback_v31_plain:
  "\<not> js_includes buildFallbackHtml_v31 ''<button''"
  "\<not> js_includes buildFallbackHtml_v31 ''menu-item--with-children''"
  "\<not> js_includes buildFallbackHtml_v31 ''menu-submenu''"
  "\<not> js_includes buildFallbackHtml_v31 ''data-lang''"
  by code_simp+

lemma fallback_v40_plain:
  "\<not> js_includes buildFallbackHtml_v40 ''<button''"
  "\<not> js_includes buildFallbackHtml_v40 ''group''"
  "\<not> js_includes buildFallbackHtml_v40 ''menu-dropdown''"
  "\<not> js_includes buildFallbackHtml_v40 ''data-lang''"
  by code_simp+

text \<open>
  C6. When the fetch of the menu configuration rejects, or its body is not JSON, the widget
  logs one warning and writes the fallback markup into its container (when the page has
  one); nothing else of the page changes: no navigation, no handlers.  The links of the
  fallback markup are exactly Home and About, and Privacy Policy in v3.1 only; it holds no
  button, no dropdown and no language link.
\<close>

theorem C6_fallback_on_load_failure:
  "(network w (menuDataUrl w) = NetworkError \<or> network w (menuDataUrl w) = InvalidJson \<longrightarrow>
      console_warn (loadMenuData_v31 w) = console_warn w @ [''Failed to load menu data:'']
    \<and> elements (loadMenuData_v31 w) =
        (case elements w (menuContainerId w) of
           None \<Rightarrow> elements w
         | Some old \<Rightarrow> (elements w)(menuContainerId w \<mapsto> buildFallbackHtml_v31))
    \<and> location_href (loadMenuData_v31 w) = location_href w
    \<and> listeners (loadMenuData_v31 w) = listeners w)
   \<and> (network v (menuDataUrl v) = NetworkError \<or> network v (menuDataUrl v) = InvalidJson \<longrightarrow>
      console_warn (loadMenuData_v40 v) = console_warn v @ [''Failed to load menu data:'']
    \<and> elements (loadMenuData_v40 v) =
        (case elements v (menuContainerId v) of
           None \<Rightarrow> elements v
         | Some old \<Rightarrow> (elements v)(menuContainerId v \<mapsto> buildFallbackHtml_v40))
    \<and> location_href (loadMenuData_v40 v) = location_href v
    \<and> listeners (loadMenuData_v40 v) = listeners v)
   \<and> anchors buildFallbackHtml_v31 =
       [(''/'', ''Home''), (''/about.html'', ''About''), (''/privacy-policy.html'', ''Privacy Policy'')]
   \<and> anchors buildFallbackHtml_v40 = [(''/'', ''Home''), (''/about.html'', ''About'')]
   \<and> \<not> js_includes buildFallbackHtml_v31 ''<button''
   \<and> \<not> js_includes buildFallbackHtml_v31 ''menu-item--with-children''
   \<and> \<not> js_includes buildFallbackHtml_v31 ''menu-submenu''
   \<and> \<not> js_includes buildFallbackHtml_v31 ''data-lang''
   \<and> \<not> js_includes buildFallbackHtml_v40 ''<button''
   \<and> \<not> js_includes buildFallbackHtml_v40 ''group''
   \<and> \<not> js_includes buildFallbackHtml_v40 ''menu-dropdown''
   \<and> \<not> js_includes buildFallbackHtml_v40 ''data-lang''"
proof -
  have "network w (menuDataUrl w) = NetworkError \<or> network w (menuDataUrl w) = InvalidJson \<longrightarrow>
      console_warn (loadMenuData_v31 w) = console_warn w @ [''Failed to load menu data:'']
    \<and> elements (loadMenuData_v31 w) =
        (case elements w (menuContainerId w) of
           None \<Rightarrow> elements w
         | Some old \<Rightarrow> (elements w)(menuContainerId w \<mapsto> buildFallbackHtml_v31))
    \<and> location_href (loadMenuData_v31 w) = location_href w
    \<and> listeners (loadMenuData_v31 w) = listeners w"
    by (auto simp: loadMenuData_v31_def renderFallbackMenu_v31_def split: option.splits)
  moreover have "network v (menuDataUrl v) = NetworkError \<or> network v (menuDataUrl v) = InvalidJson \<longrightarrow>
      console_warn (loadMenuData_v40 v) = console_warn v @ [''Failed to load menu data:'']
    \<and> elements (loadMenuData_v40 v) =
        (case elements v (menuContainerId v) of
           None \<Rightarrow> elements v
         | Some old \<Rightarrow> (elements v)(menuContainerId v \<mapsto> buildFallbackHtml_v40))
    \<and> location_href (loadMenuData_v40 v) = location_href v
    \<and> listeners (loadMenuData_v40 v) = listeners v"
    by (auto simp: loadMenuData_v40_def renderFallbackMenu_v40_def split: option.splits)
  ultimately show ?thesis
    using fallback_v31_anchors fallback_v40_anchors fallback_v31_plain fallback_v40_plain
    by blast
qed

lemma detectLanguage_v31_eq:
  "detectLanguage_v31 pg =
     (case first_region (pathname pg) of
        Some i \<Rightarrow> take 2 (drop (i + 9) (pathname pg))
      | None \<Rightarrow>
          (case localStorage pg ''preferredLanguage'' of
             Some l \<Rightarrow> if l = [] then ''en'' else l
           | None \<Rightarrow> ''en''))"
  by (simp add: detectLanguage_v31_def js_match_region_cap split: option.splits)

lemma detectLanguage_v40_eq:
  "detectLanguage_v40 pg =
     (case first_region (pathname pg) of
        Some i \<Rightarrow> take 2 (drop (i + 9) (pathname pg))
      | None \<Rightarrow>
          (case localStorage pg ''preferredLanguage'' of
             Some l \<Rightarrow> if l = [] then ''en'' else l
           | None \<Rightarrow> ''en''))"
  by (simp add: detectLanguage_v40_def js_match_region_cap split: option.splits)

lemma first_region_examples:
  "first_region ''/regions/fr/reviews/x.html'' = Some 0"
  "first_region ''/regions/de/reviews/y.html'' = Some 0"
  "first_region ''/regions/en/reviews/widget.html'' = Some 0"
  "first_region ''/about.html'' = None"
  by code_simp+

lemma subst_region_examples:
  "subst_region ''es'' ''/regions/en/reviews/widget.html'' = ''/regions/es/reviews/widget.html''"
  "subst_region ''it'' ''/regions/de/reviews/y.html'' = ''/regions/it/reviews/y.html''"
  "subst_region ''es'' ''/about.html'' = ''/about.html''"
  by code_simp+

lemma subst_region_examples_it:
  "subst_region ''it'' ''/regions/en/reviews/widget.html'' = ''/regions/it/reviews/widget.html''"
  by code_simp

lemma js_includes_examples:
  "js_includes ''/regions/de/reviews/y.html'' ''/regions/''"
  "\<not> js_includes ''/about.html'' ''/regions/''"
  by code_simp+

text \<open>
  C3. At construction the active language is the two-letter code of the leftmost
  \<^verbatim>\<open>/regions/{code}/\<close> segment of the page path when there is one; otherwise the stored
  \<^verbatim>\<open>preferredLanguage\<close> when one is stored (and is not the empty text); otherwise
  \<^verbatim>\<open>en\<close>.  Both variants.
\<close>

theorem C3_language_detection_priority:
  "(first_region (pathname pg) = Some i \<longrightarrow>
      currentLang (new_v31 opts pg) = take 2 (drop (i + 9) (pathname pg)) \<and>
      currentLang (new_v40 opts pg) = take 2 (drop (i + 9) (pathname pg)))
   \<and> (first_region (pathname pg) = None \<and> localStorage pg ''preferredLanguage'' = Some l \<and> l \<noteq> [] \<longrightarrow>
      currentLang (new_v31 opts pg) = l \<and> currentLang (new_v40 opts pg) = l)
   \<and> (first_region (pathname pg) = None \<and>
        (localStorage pg ''preferredLanguage'' = None \<or> localStorage pg ''preferredLanguage'' = Some []) \<longrightarrow>
      currentLang (new_v31 opts pg) = ''en'' \<and> currentLang (new_v40 opts pg) = ''en'')"
  by (auto simp: new_v31_def new_v40_def currentLang_loadMenuData_v31 currentLang_loadMenuData_v40
      detectLanguage_v31_eq detectLanguage_v40_eq)

theorem C3_language_detection_priority_witness:
  "currentLang (new_v31 no_options (page_of ''/regions/fr/reviews/x.html'' (Some ''de'') InvalidJson)) = ''fr''
   \<and> currentLang (new_v40 no_options (page_of ''/regions/fr/reviews/x.html'' (Some ''de'') InvalidJson)) = ''fr''
   \<and> currentLang (new_v31 no_options (page_of ''/about.html'' (Some ''de'') InvalidJson)) = ''de''
   \<and> currentLang (new_v40 no_options (page_of ''/about.html'' (Some ''de'') InvalidJson)) = ''de''
   \<and> currentLang (new_v31 no_options (page_of ''/about.html'' None InvalidJson)) = ''en''
   \<and> currentLang (new_v40 no_options (page_of ''/about.html'' None InvalidJson)) = ''en''"
proof -
  let ?fr = "page_of ''/regions/fr/reviews/x.html'' (Some ''de'') InvalidJson"
  let ?de = "page_of ''/about.html'' (Some ''de'') InvalidJson"
  let ?en = "page_of ''/about.html'' None InvalidJson"
  have p: "pathname ?fr = ''/regions/fr/reviews/x.html''" "pathname ?de = ''/about.html''"
    "pathname ?en = ''/about.html''"
    "localStorage ?de ''preferredLanguage'' = Some ''de''" "localStorage ?en ''preferredLanguage'' = None"
    by (simp_all add: page_of_def)
  have "currentLang (new_v31 no_options ?fr) = take 2 (drop (0 + 9) (pathname ?fr))
        \<and> currentLang (new_v40 no_options ?fr) = take 2 (drop (0 + 9) (pathname ?fr))"
    using C3_language_detection_priority [of ?fr 0 no_options] first_region_examples p(1) by simp
  moreover have "currentLang (new_v31 no_options ?de) = ''de'' \<and> currentLang (new_v40 no_options ?de) = ''de''"
    using C3_language_detection_priority [of ?de _ no_options "''de''"] first_region_examples p(2,4) by simp
  moreover have "currentLang (new_v31 no_options ?en) = ''en'' \<and> currentLang (new_v40 no_options ?en) = ''en''"
    using C3_language_detection_priority [of ?en _ no_options] first_region_examples p(3,5) by simp
  ultimately show ?thesis
    unfolding p by simp
qed

theorem C6_fallback_on_load_failure_witness:
  "network (widget_of (page_of ''/about.html'' None NetworkError) None ''en'') ''/data/menu.json'' = NetworkError
   \<and> console_warn (loadMenuData_v31 (widget_of (page_of ''/about.html'' None NetworkError) None ''en''))
       = [''Failed to load menu data:'']
   \<and> elements (loadMenuData_v31 (widget_of (page_of ''/about.html'' None NetworkError) None ''en'')) ''dynamic-menu''
       = Some buildFallbackHtml_v31
   \<and> console_warn (loadMenuData_v40 (widget40_of (page_of ''/about.html'' None InvalidJson) None ''en''))
       = [''Failed to load menu data:'']
   \<and> elements (loadMenuData_v40 (widget40_of (page_of ''/about.html'' None InvalidJson) None ''en'')) ''dynamic-menu''
       = Some buildFallbackHtml_v40"
  using C6_fallback_on_load_failure [of "widget_of (page_of ''/about.html'' None NetworkError) None ''en''"
      "widget40_of (page_of ''/about.html'' None InvalidJson) None ''en''"]
  by (simp add: widget_of_def widget40_of_def page_of_def)

theorem C7_review_links_localized_witness:
  "getLocalizedUrl_v31 (widget_of (page_of ''/about.html'' (Some ''es'') InvalidJson) (Some example_menu) ''es'')
      ''/regions/en/reviews/widget.html'' = ''/regions/es/reviews/widget.html''
   \<and> getLocalizedUrl_v40 (widget40_of (page_of ''/about.html'' (Some ''es'') InvalidJson) (Some example_menu) ''es'')
      ''/regions/en/reviews/widget.html'' = ''/regions/es/reviews/widget.html''"
  using C7_review_links_localized
    [of "widget_of (page_of ''/about.html'' (Some ''es'') InvalidJson) (Some example_menu) ''es''"
        "widget40_of (page_of ''/about.html'' (Some ''es'') InvalidJson) (Some example_menu) ''es''"
        "''/regions/en/reviews/widget.html''"]
  by (simp add: widget_of_def widget40_of_def subst_region_examples)

theorem C10_getLocalizedUrl_idempotent_witness:
  "is_lang_code ''es''
   \<and> getLocalizedUrl_v31 (widget_of (page_of ''/about.html'' None InvalidJson) None ''es'')
        (getLocalizedUrl_v31 (widget_of (page_of ''/about.html'' None InvalidJson) None ''es'')
           ''/regions/en/reviews/widget.html'')
      = getLocalizedUrl_v31 (widget_of (page_of ''/about.html'' None InvalidJson) None ''es'')
           ''/regions/en/reviews/widget.html''
   \<and> getLocalizedUrl_v40 (widget40_of (page_of ''/about.html'' None InvalidJson) None ''es'')
        (getLocalizedUrl_v40 (widget40_of (page_of ''/about.html'' None InvalidJson) None ''es'')
           ''/regions/en/reviews/widget.html'')
      = getLocalizedUrl_v40 (widget40_of (page_of ''/about.html'' None InvalidJson) None ''es'')
           ''/regions/en/reviews/widget.html''
   \<and> getLocalizedUrl_v31 (widget_of (page_of ''/about.html'' None InvalidJson) None ''es'') ''/about.html''
      = ''/about.html''
   \<and> getLocalizedUrl_v40 (widget40_of (page_of ''/about.html'' None InvalidJson) None ''es'') ''/about.html''
      = ''/about.html''"
proof -
  let ?w = "widget_of (page_of ''/about.html'' None InvalidJson) None ''es''"
  let ?v = "widget40_of (page_of ''/about.html'' None InvalidJson) None ''es''"
  have l: "is_lang_code ''es''"
    by (simp add: is_lang_code_def is_lower_def lower_case_def)
  then have lw: "is_lang_code (currentLang ?w)" and lv: "is_lang_code (currentLang ?v)"
    by (simp_all add: widget_of_def widget40_of_def)
  from C10_getLocalizedUrl_idempotent [of ?w "''/regions/en/reviews/widget.html''" ?v] lw lv
  have a: "getLocalizedUrl_v31 ?w (getLocalizedUrl_v31 ?w ''/regions/en/reviews/widget.html'')
            = getLocalizedUrl_v31 ?w ''/regions/en/reviews/widget.html''"
    and b: "getLocalizedUrl_v40 ?v (getLocalizedUrl_v40 ?v ''/regions/en/reviews/widget.html'')
            = getLocalizedUrl_v40 ?v ''/regions/en/reviews/widget.html''"
    by blast+
  from C10_getLocalizedUrl_idempotent [of ?w "''/about.html''" ?v] lw lv first_region_examples(4)
  have c: "getLocalizedUrl_v31 ?w ''/about.html'' = ''/about.html''"
    and d: "getLocalizedUrl_v40 ?v ''/about.html'' = ''/about.html''"
    by blast+
  from l a b c d show ?thesis by blast
qed

theorem C8_switchLanguage_witness:
  \<open>location_href (switchLanguage_v31 ''it''
       (widget_of (page_of ''/regions/de/reviews/y.html'' None InvalidJson) None ''de''))
     = Some ''/regions/it/reviews/y.html''
   \<and> localStorage (switchLanguage_v31 ''it''
       (widget_of (page_of ''/regions/de/reviews/y.html'' None InvalidJson) None ''de'')) ''preferredLanguage''
     = Some ''it''
   \<and> location_href (switchLanguage_v31 ''it'' (widget_of (page_of ''/about.html'' None InvalidJson) (Some example_menu) ''en''))
     = None
   \<and> currentLang (switchLanguage_v31 ''it'' (widget_of (page_of ''/about.html'' None InvalidJson) (Some example_menu) ''en''))
     = ''it''
   \<and> listeners (switchLanguage_v31 ''it'' (widget_of (page_of ''/about.html'' None InvalidJson) (Some example_menu) ''en''))
     = 1
   \<and> (\<exists>pre post.
        elements (switchLanguage_v31 ''it'' (widget_of (page_of ''/about.html'' None InvalidJson) (Some example_menu) ''en''))
          ''dynamic-menu''
        = Some (pre @ ''<li class="menu-submenu-item">\<newline>          <a href="'' @ ''/regions/it/reviews/widget.html'' @ ''" class="menu-submenu-link block px-4 py-2 text-slate-200 hover:bg-slate-700 hover:text-white transition-colors">'' @ ''Widget'' @ ''</a>\<newline>        </li>'' @ post))
   \<and> location_href (switchLanguage_v40 ''it''
       (widget40_of (page_of ''/regions/de/reviews/y.html'' None InvalidJson) None ''de''))
     = Some ''/regions/it/reviews/y.html''
   \<and> location_href (switchLanguage_v40 ''it'' (widget40_of (page_of ''/about.html'' None InvalidJson) (Some example_menu) ''en''))
     = None
   \<and> currentLang (switchLanguage_v40 ''it'' (widget40_of (page_of ''/about.html'' None InvalidJson) (Some example_menu) ''en''))
     = ''it''
   \<and> listeners (switchLanguage_v40 ''it'' (widget40_of (page_of ''/about.html'' None InvalidJson) (Some example_menu) ''en''))
     = 1
   \<and> (\<exists>pre post.
        elements (switchLanguage_v40 ''it'' (widget40_of (page_of ''/about.html'' None InvalidJson) (Some example_menu) ''en''))
          ''dynamic-menu''
        = Some (pre @ ''<a href="'' @ ''/regions/it/reviews/widget.html'' @ ''" class="block px-4 py-2 text-gray-600 hover:bg-gray-50 hover:text-gray-900 text-sm no-underline transition-colors">'' @ ''Widget'' @ ''</a>'' @ post))\<close>
proof -
  let ?w1 = "widget_of (page_of ''/regions/de/reviews/y.html'' None InvalidJson) None ''de''"
  let ?w2 = "widget_of (page_of ''/about.html'' None InvalidJson) (Some example_menu) ''en''"
  let ?v1 = "widget40_of (page_of ''/regions/de/reviews/y.html'' None InvalidJson) None ''de''"
  let ?v2 = "widget40_of (page_of ''/about.html'' None InvalidJson) (Some example_menu) ''en''"
  let ?w3 = "?w2\<lparr>localStorage := (localStorage ?w2)(''preferredLanguage'' \<mapsto> ''it''), currentLang := ''it''\<rparr>"
  let ?v3 = "?v2\<lparr>localStorage := (localStorage ?v2)(''preferredLanguage'' \<mapsto> ''it''), currentLang := ''it''\<rparr>"
  let ?revs = "[\<lparr>r_label = ''Widget'', r_url = ''/regions/en/reviews/widget.html''\<rparr>]"
  have p: "pathname ?w1 = ''/regions/de/reviews/y.html''" "pathname ?w2 = ''/about.html''"
    "pathname ?v1 = ''/regions/de/reviews/y.html''" "pathname ?v2 = ''/about.html''"
    "location_href ?w2 = None" "location_href ?v2 = None"
    "menuContainerId ?w2 = ''dynamic-menu''" "menuContainerId ?v2 = ''dynamic-menu''"
    "elements ?w2 ''dynamic-menu'' = Some []" "elements ?v2 ''dynamic-menu'' = Some []"
    "listeners ?w2 = 0" "listeners ?v2 = 0"
    by (simp_all add: widget_of_def widget40_of_def page_of_def)
  have n: "CHR ''$'' \<notin> set ''it''" by simp
  have i1: "js_includes (pathname ?w1) ''/regions/''" "js_includes (pathname ?v1) ''/regions/''"
    unfolding p by (rule js_includes_examples)+
  have i2: "\<not> js_includes (pathname ?w2) ''/regions/''" "\<not> js_includes (pathname ?v2) ''/regions/''"
    unfolding p by (rule js_includes_examples)+
  from C8_switchLanguage [of "''it''" ?w1 ?v1] n i1
  have "location_href (switchLanguage_v31 ''it'' ?w1) = Some (subst_region ''it'' (pathname ?w1))"
    "localStorage (switchLanguage_v31 ''it'' ?w1) ''preferredLanguage'' = Some ''it''"
    "location_href (switchLanguage_v40 ''it'' ?v1) = Some (subst_region ''it'' (pathname ?v1))"
    by blast+
  then have a: "location_href (switchLanguage_v31 ''it'' ?w1) = Some ''/regions/it/reviews/y.html''"
    "localStorage (switchLanguage_v31 ''it'' ?w1) ''preferredLanguage'' = Some ''it''"
    "location_href (switchLanguage_v40 ''it'' ?v1) = Some ''/regions/it/reviews/y.html''"
    unfolding p subst_region_examples by blast+
  from C8_switchLanguage [of "''it''" ?w2 ?v2] n i2
  have s: "location_href (switchLanguage_v31 ''it'' ?w2) = location_href ?w2"
    "currentLang (switchLanguage_v31 ''it'' ?w2) = ''it''"
    "location_href (switchLanguage_v40 ''it'' ?v2) = location_href ?v2"
    "currentLang (switchLanguage_v40 ''it'' ?v2) = ''it''"
    "elements (switchLanguage_v31 ''it'' ?w2) =
       (case elements ?w2 (menuContainerId ?w2) of
          None \<Rightarrow> elements ?w2
        | Some old \<Rightarrow> (elements ?w2)(menuContainerId ?w2 \<mapsto> buildMenuHtml_v31 ?w3))"
    "listeners (switchLanguage_v31 ''it'' ?w2) =
       (case elements ?w2 (menuContainerId ?w2) of None \<Rightarrow> listeners ?w2 | Some old \<Rightarrow> Suc (listeners ?w2))"
    "elements (switchLanguage_v40 ''it'' ?v2) =
       (case elements ?v2 (menuContainerId ?v2) of
          None \<Rightarrow> elements ?v2
        | Some old \<Rightarrow> (elements ?v2)(menuContainerId ?v2 \<mapsto> buildMenuHtml_v40 ?v3))"
    "listeners (switchLanguage_v40 ''it'' ?v2) =
       (case elements ?v2 (menuContainerId ?v2) of None \<Rightarrow> listeners ?v2 | Some old \<Rightarrow> Suc (listeners ?v2))"
    by blast+
  have b: "location_href (switchLanguage_v31 ''it'' ?w2) = None"
    "currentLang (switchLanguage_v31 ''it'' ?w2) = ''it''"
    "location_href (switchLanguage_v40 ''it'' ?v2) = None"
    "currentLang (switchLanguage_v40 ''it'' ?v2) = ''it''"
    "listeners (switchLanguage_v31 ''it'' ?w2) = 1"
    "listeners (switchLanguage_v40 ''it'' ?v2) = 1"
    "elements (switchLanguage_v31 ''it'' ?w2) ''dynamic-menu'' = Some (buildMenuHtml_v31 ?w3)"
    "elements (switchLanguage_v40 ''it'' ?v2) ''dynamic-menu'' = Some (buildMenuHtml_v40 ?v3)"
    unfolding s p by simp_all
  have m: "menuData ?w3 = Some example_menu" "menuData ?v3 = Some example_menu"
    "reviews example_menu = Some ?revs" "currentLang ?w3 = ''it''" "currentLang ?v3 = ''it''"
    by (simp_all add: widget_of_def widget40_of_def example_menu_def)
  have u: "getLocalizedUrl_v31 ?w3 ''/regions/en/reviews/widget.html'' = ''/regions/it/reviews/widget.html''"
    "getLocalizedUrl_v40 ?v3 ''/regions/en/reviews/widget.html'' = ''/regions/it/reviews/widget.html''"
    using getLocalizedUrl_v31_subst [of ?w3] getLocalizedUrl_v40_subst [of ?v3] n
    unfolding m by (simp_all add: subst_region_examples_it)
  from buildMenuHtml_v31_reviews [OF m(1) m(3)]
  obtain pre post where "buildMenuHtml_v31 ?w3 = pre @ reviewLinks_v31 ?w3 ?revs @ post"
    by blast
  then have "buildMenuHtml_v31 ?w3 = pre @ reviewLinks_v31 ?w3 ?revs @ post" .
  then have c: \<open>\<exists>pre post. buildMenuHtml_v31 ?w3 =
      pre @ ''<li class="menu-submenu-item">\<newline>          <a href="'' @ ''/regions/it/reviews/widget.html'' @ ''" class="menu-submenu-link block px-4 py-2 text-slate-200 hover:bg-slate-700 hover:text-white transition-colors">'' @ ''Widget'' @ ''</a>\<newline>        </li>'' @ post\<close>
    by (intro exI [of _ pre] exI [of _ post]) (simp add: u)
  from buildMenuHtml_v40_reviews [OF m(2) m(3)]
  obtain pre' post' where "buildMenuHtml_v40 ?v3 = pre' @ reviewLinks_v40 ?v3 ?revs @ post'"
    by blast
  then have "buildMenuHtml_v40 ?v3 = pre' @ reviewLinks_v40 ?v3 ?revs @ post'" .
  then have d: \<open>\<exists>pre post. buildMenuHtml_v40 ?v3 =
      pre @ ''<a href="'' @ ''/regions/it/reviews/widget.html'' @ ''" class="block px-4 py-2 text-gray-600 hover:bg-gray-50 hover:text-gray-900 text-sm no-underline transition-colors">'' @ ''Widget'' @ ''</a>'' @ post\<close>
    by (intro exI [of _ pre'] exI [of _ post']) (simp add: u)
  from a b c d show ?thesis by simp
qed

theorem C9_variants_equivalent_witness:
  "currentLang (new_v40 no_options (page_of ''/regions/fr/reviews/x.html'' (Some ''de'') (Json (Some example_menu))))
     = currentLang (new_v31 no_options (page_of ''/regions/fr/reviews/x.html'' (Some ''de'') (Json (Some example_menu))))
   \<and> location_href (switchLanguage_v40 ''it''
        (widget40_of (page_of ''/regions/de/reviews/y.html'' None InvalidJson) (Some example_menu) ''de''))
     = location_href (switchLanguage_v31 ''it''
        (widget.truncate (widget40_of (page_of ''/regions/de/reviews/y.html'' None InvalidJson) (Some example_menu) ''de'')))"
  using C9_variants_equivalent
    [of "page_of ''/regions/fr/reviews/x.html'' (Some ''de'') (Json (Some example_menu))" no_options
        "widget40_of (page_of ''/regions/de/reviews/y.html'' None InvalidJson) (Some example_menu) ''de''" _ "''it''"]
  by blast

section \<open>Properties of the review sync script\<close>

subsection \<open>Searching a text\<close>

lemma js_indexOf_ge: "- 1 \<le> js_indexOf s w"
  by (induction s) (auto simp: Let_def)

lemma js_indexOf_none: "js_indexOf s w = - 1 \<longleftrightarrow> \<not> js_includes s w"
proof (induction s)
  case Nil
  then show ?case by (auto simp: starts_with_def)
next
  case (Cons c s)
  have "- 1 \<le> js_indexOf s w" by (rule js_indexOf_ge)
  then show ?case using Cons by (auto simp: Let_def)
qed

lemma js_includes_iff: "js_includes s w \<longleftrightarrow> (\<exists>pre post. s = pre @ w @ post)"
proof (induction s)
  case Nil
  then show ?case by auto
next
  case (Cons c s)
  show ?case
  proof
    assume "js_includes (c # s) w"
    then consider "starts_with (c # s) w" | "js_includes s w" by auto
    then show "\<exists>pre post. c # s = pre @ w @ post"
    proof cases
      case 1
      then obtain t where "c # s = w @ t" unfolding starts_with_append by blast
      then have "c # s = [] @ w @ t" by simp
      then show ?thesis by blast
    next
      case 2
      with Cons obtain pre post where "s = pre @ w @ post" by blast
      then have "c # s = (c # pre) @ w @ post" by simp
      then show ?thesis by blast
    qed
  next
    assume "\<exists>pre post. c # s = pre @ w @ post"
    then obtain pre post where e: "c # s = pre @ w @ post" by blast
    show "js_includes (c # s) w"
    proof (cases pre)
      case Nil
      with e have "starts_with (c # s) w" unfolding starts_with_append by auto
      then show ?thesis by simp
    next
      case (Cons d pre')
      with e have "s = pre' @ w @ post" by simp
      with Cons.IH have "js_includes s w" by blast
      then show ?thesis by simp
    qed
  qed
qed

subsection \<open>The exit status of a run\<close>

text \<open>
  C1, as amended. A run whose listing page does not hold the data block ends with status 1
  and the diagnostic on the error stream, and leaves both target files alone. A run whose
  listing page holds the block and whose sitemap lacks one of the two section comments ends
  with status 1 and the diagnostic as well, and leaves the sitemap alone; the listing page
  has been rebuilt by then, and written when its content changed. Every other run ends with
  status 0 and writes nothing to the error stream.
\<close>

theorem C1_missing_anchor_exit:
  "(\<not> js_test re_marker (index_file w) \<longrightarrow>
      fst (main w) = 1
    \<and> err_log (snd (main w)) = err_log w @ [''ERROR: Could not find reviewsData marker in index.html'']
    \<and> written (snd (main w)) = written w
    \<and> index_file (snd (main w)) = index_file w
    \<and> sitemap_file (snd (main w)) = sitemap_file w)
   \<and> (js_test re_marker (index_file w) \<and>
        (\<not> js_includes (sitemap_file w) startMarker \<or> \<not> js_includes (sitemap_file w) endMarker) \<longrightarrow>
      fst (main w) = 1
    \<and> err_log (snd (main w)) = err_log w @ [''ERROR: Could not find sitemap markers'']
    \<and> sitemap_file (snd (main w)) = sitemap_file w
    \<and> index_file (snd (main w)) = js_replace re_marker (newBlock (collect w)) (index_file w)
    \<and> written (snd (main w)) =
        (if js_replace re_marker (newBlock (collect w)) (index_file w) \<noteq> index_file w
         then written w @ [''index.html''] else written w))
   \<and> (js_test re_marker (index_file w) \<and> js_includes (sitemap_file w) startMarker
        \<and> js_includes (sitemap_file w) endMarker \<longrightarrow>
      fst (main w) = 0 \<and> err_log (snd (main w)) = err_log w)"
  by (auto simp: main_def updateIndex_def updateSitemap_def Let_def js_indexOf_none split: step.splits)

subsection \<open>The order of the records\<close>

lemma localeCompare_le: "localeCompare a b \<le> 0 \<longleftrightarrow> a \<le> b"
  by (auto simp: localeCompare_def)

lemma set_insert_by: "set (insert_by cmp x ys) = insert x (set ys)"
  by (induction ys) auto

lemma mset_insert_by: "mset (insert_by cmp x ys) = add_mset x (mset ys)"
  by (induction ys) auto

lemma mset_js_sort: "mset (js_sort cmp xs) = mset xs"
  by (induction xs) (auto simp: mset_insert_by)

lemma sorted_insert_by:
  fixes key :: "'a \<Rightarrow> string"
  assumes "sorted_wrt (\<lambda>a b. key b \<le> key a) ys"
  shows "sorted_wrt (\<lambda>a b. key b \<le> key a) (insert_by (\<lambda>a b. localeCompare (key b) (key a)) x ys)"
  using assms
proof (induction ys)
  case Nil
  then show ?case by simp
next
  case (Cons y ys)
  show ?case
  proof (cases "key y \<le> key x")
    case True
    with Cons.prems show ?thesis
      by (auto simp: localeCompare_le intro: order_trans)
  next
    case False
    then have "key x \<le> key y" by simp
    with False Cons show ?thesis
      by (auto simp: localeCompare_le set_insert_by)
  qed
qed

lemma sorted_js_sort:
  fixes key :: "'a \<Rightarrow> string"
  shows "sorted_wrt (\<lambda>a b. key b \<le> key a) (js_sort (\<lambda>a b. localeCompare (key b) (key a)) xs)"
  by (induction xs) (simp_all add: sorted_insert_by)

lemma filter_insert_by:
  fixes key :: "'a \<Rightarrow> string"
  shows "filter (\<lambda>r. key r = d) (insert_by (\<lambda>a b. localeCompare (key b) (key a)) x ys) =
         (if key x = d then x # filter (\<lambda>r. key r = d) ys else filter (\<lambda>r. key r = d) ys)"
  by (induction ys) (auto simp: localeCompare_le)

lemma filter_js_sort:
  fixes key :: "'a \<Rightarrow> string"
  shows "filter (\<lambda>r. key r = d) (js_sort (\<lambda>a b. localeCompare (key b) (key a)) xs) = filter (\<lambda>r. key r = d) xs"
  by (induction xs) (simp_all add: filter_insert_by)

lemma collect_extracted: "collect w = js_sort (\<lambda>a b. localeCompare (m_date b) (m_date a)) (extracted w)"
  by (simp add: collect_def extracted_def)

text \<open>
  C5. The records that a run emits are in descending order of their date texts, compared as
  strings: they are the records extracted from the review files, each as often as before,
  and records of one date keep the order of the directory. The listing page gets the block
  built from the records in this order, and the sitemap the entries built from them in this
  order.
\<close>

theorem C5_newest_first:
  "sorted_wrt (\<lambda>a b. m_date b \<le> m_date a) (collect w)
   \<and> mset (collect w) = mset (extracted w)
   \<and> filter (\<lambda>r. m_date r = d) (collect w) = filter (\<lambda>r. m_date r = d) (extracted w)
   \<and> (js_test re_marker (index_file w) \<longrightarrow>
        index_file (snd (main w)) = js_replace re_marker (newBlock (collect w)) (index_file w))
   \<and> (js_test re_marker (index_file w) \<and> js_includes (sitemap_file w) startMarker
        \<and> js_includes (sitemap_file w) endMarker \<longrightarrow>
        sitemap_file (snd (main w)) =
          js_replace re_lastmod (''$1'' @ today w @ ''$2'')
            (js_substring (sitemap_file w) 0 (js_indexOf (sitemap_file w) startMarker + int (length startMarker))
             @ ''\<newline>'' @ js_join ''\<newline>'' (map sitemapEntry (collect w)) @ ''\<newline>  ''
             @ js_substring_from (sitemap_file w) (js_indexOf (sitemap_file w) endMarker)))"
proof -
  have a: "sorted_wrt (\<lambda>a b. m_date b \<le> m_date a) (collect w)"
    unfolding collect_extracted by (rule sorted_js_sort)
  have b: "mset (collect w) = mset (extracted w)"
    unfolding collect_extracted by (rule mset_js_sort)
  have c: "filter (\<lambda>r. m_date r = d) (collect w) = filter (\<lambda>r. m_date r = d) (extracted w)"
    unfolding collect_extracted by (rule filter_js_sort)
  have e: "js_test re_marker (index_file w) \<longrightarrow>
        index_file (snd (main w)) = js_replace re_marker (newBlock (collect w)) (index_file w)"
    by (auto simp: main_def updateIndex_def updateSitemap_def Let_def split: step.splits)
  have f: "js_test re_marker (index_file w) \<and> js_includes (sitemap_file w) startMarker
        \<and> js_includes (sitemap_file w) endMarker \<longrightarrow>
        sitemap_file (snd (main w)) =
          js_replace re_lastmod (''$1'' @ today w @ ''$2'')
            (js_substring (sitemap_file w) 0 (js_indexOf (sitemap_file w) startMarker + int (length startMarker))
             @ ''\<newline>'' @ js_join ''\<newline>'' (map sitemapEntry (collect w)) @ ''\<newline>  ''
             @ js_substring_from (sitemap_file w) (js_indexOf (sitemap_file w) endMarker))"
    by (auto simp: main_def updateIndex_def updateSitemap_def Let_def today_def js_indexOf_none split: step.splits)
  from a b c e f show ?thesis by blast
qed

subsection \<open>The excerpt\<close>




lemma rest_Nil: "rest [] b s = Some s"
  by (simp add: rest_def)















subsection \<open>Runs on the example working trees\<close>

lemma three_reviews_dates:
  "map m_date (extracted three_reviews) = [''2025-01-05'', ''2026-03-01'', ''2024-11-30'']"
  "map m_date (collect three_reviews) = [''2026-03-01'', ''2025-01-05'', ''2024-11-30'']"
  by code_simp+

lemma three_reviews_report:
  \<open>report (main three_reviews) =
     (0, [''Found 3 review files'', ''Extracted metadata for 3 reviews'', ''Updated index.html with 3 reviews'', ''Updated sitemap.xml with 3 review URLs'', ''Files updated successfully''], [], [''index.html'', ''sitemap.xml''],
      ''const reviewsData = [\<newline>      {\<newline>        title: "Lamp",\<newline>        url: "/regions/en/reviews/lamp.html",\<newline>        category: "General",\<newline>        excerpt: "",\<newline>        image: "",\<newline>        date: "2026-03-01"\<newline>      },\<newline>      {\<newline>        title: "Kettle",\<newline>        url: "/regions/en/reviews/kettle.html",\<newline>        category: "General",\<newline>        excerpt: "",\<newline>        image: "",\<newline>        date: "2025-01-05"\<newline>      },\<newline>      {\<newline>        title: "Radio",\<newline>        url: "/regions/en/reviews/radio.html",\<newline>        category: "General",\<newline>        excerpt: "",\<newline>        image: "",\<newline>        date: "2024-11-30"\<newline>      }\<newline>    ]; // END REVIEWS DATA'',
      ''<loc>https://smartbuyreviews.co.uk/regions/en/reviews/</loc><lastmod>2026-11-02</lastmod>\<newline><!-- Reviews - AUTO-GENERATED SECTION START -->\<newline>  <url>\<newline>    <loc>https://smartbuyreviews.co.uk/regions/en/reviews/lamp.html</loc>\<newline>    <lastmod>2026-03-01</lastmod>\<newline>    <changefreq>monthly</changefreq>\<newline>    <priority>0.7</priority>\<newline>  </url>\<newline>  <url>\<newline>    <loc>https://smartbuyreviews.co.uk/regions/en/reviews/kettle.html</loc>\<newline>    <lastmod>2025-01-05</lastmod>\<newline>    <changefreq>monthly</changefreq>\<newline>    <priority>0.7</priority>\<newline>  </url>\<newline>  <url>\<newline>    <loc>https://smartbuyreviews.co.uk/regions/en/reviews/radio.html</loc>\<newline>    <lastmod>2024-11-30</lastmod>\<newline>    <changefreq>monthly</changefreq>\<newline>    <priority>0.7</priority>\<newline>  </url>\<newline>  <!-- Reviews - AUTO-GENERATED SECTION END -->'')\<close>
  by code_simp

lemma broken_examples:
  "\<not> js_test re_marker (index_file broken_index)"
  "js_test re_marker (index_file broken_sitemap)"
  "js_test re_marker (index_file three_reviews)"
  "js_includes (sitemap_file three_reviews) startMarker"
  "js_includes (sitemap_file three_reviews) endMarker"
  by code_simp+

lemma example_fields:
  "err_log broken_index = []" "written broken_index = []"
  "err_log broken_sitemap = []" "written broken_sitemap = []"
  "sitemap_file broken_sitemap = ''<urlset></urlset>''"
  "err_log three_reviews = []" "index_file three_reviews = example_index"
  by (simp_all add: broken_index_def broken_sitemap_def three_reviews_def site_def)

text \<open>
  C2. The second of two runs on the same day writes the listing page again when a title holds
  the two characters \<^verbatim>\<open>$&\<close>: the block is put into the page by \<^verbatim>\<open>String.replace\<close> with a text
  as the replacement, where these two characters stand for the text matched, so that each run
  encloses the block of the run before.
\<close>

theorem C2_second_run_rewrites_listing:
  \<open>report (main (fresh (snd (main dollar_review)))) =
     (0, [''Found 1 review files'', ''Extracted metadata for 1 reviews'', ''Updated index.html with 1 reviews'', ''sitemap.xml already up to date'', ''Files updated successfully''], [], [''index.html''],
      ''const reviewsData = [\<newline>      {\<newline>        title: "USconst reviewsData = [\<newline>      {\<newline>        title: "USconst reviewsData = [\<newline>]; // END REVIEWS DATAamp;UK Adapter",\<newline>        url: "/regions/en/reviews/adapter.html",\<newline>        category: "General",\<newline>        excerpt: "",\<newline>        image: "",\<newline>        date: "2026-02-10"\<newline>      }\<newline>    ]; // END REVIEWS DATAamp;UK Adapter",\<newline>        url: "/regions/en/reviews/adapter.html",\<newline>        category: "General",\<newline>        excerpt: "",\<newline>        image: "",\<newline>        date: "2026-02-10"\<newline>      }\<newline>    ]; // END REVIEWS DATA'',
      ''<loc>https://smartbuyreviews.co.uk/regions/en/reviews/</loc><lastmod>2026-11-02</lastmod>\<newline><!-- Reviews - AUTO-GENERATED SECTION START -->\<newline>  <url>\<newline>    <loc>https://smartbuyreviews.co.uk/regions/en/reviews/adapter.html</loc>\<newline>    <lastmod>2026-02-10</lastmod>\<newline>    <changefreq>monthly</changefreq>\<newline>    <priority>0.7</priority>\<newline>  </url>\<newline>  <!-- Reviews - AUTO-GENERATED SECTION END -->'')
   \<and> index_file (snd (main (fresh (snd (main dollar_review))))) \<noteq> index_file (snd (main dollar_review))\<close>
  by code_simp

text \<open>
  C1 as first stated fails: without the section comments in the sitemap the run ends with
  status 1 after it has written the listing page.
\<close>

theorem C1_counterexample:
  "\<not> js_includes (sitemap_file broken_sitemap) startMarker
   \<and> fst (main broken_sitemap) = 1
   \<and> written broken_sitemap = []
   \<and> written (snd (main broken_sitemap)) = [''index.html'']
   \<and> index_file (snd (main broken_sitemap)) \<noteq> index_file broken_sitemap"
  by code_simp


lemma broken_sitemap_markers:
  "\<not> js_includes (sitemap_file broken_sitemap) startMarker"
  by code_simp



text \<open>
  The amended C1 on a listing page without the data block, on a sitemap without the section
  comments and on a working tree that has both.
\<close>

theorem C1_missing_anchor_exit_witness:
  "fst (main broken_index) = 1
   \<and> err_log (snd (main broken_index)) = [''ERROR: Could not find reviewsData marker in index.html'']
   \<and> written (snd (main broken_index)) = []
   \<and> fst (main broken_sitemap) = 1
   \<and> err_log (snd (main broken_sitemap)) = [''ERROR: Could not find sitemap markers'']
   \<and> sitemap_file (snd (main broken_sitemap)) = ''<urlset></urlset>''
   \<and> fst (main three_reviews) = 0
   \<and> err_log (snd (main three_reviews)) = []"
proof -
  have a: "fst (main broken_index) = 1
      \<and> err_log (snd (main broken_index)) = err_log broken_index @ [''ERROR: Could not find reviewsData marker in index.html'']
      \<and> written (snd (main broken_index)) = written broken_index"
    using C1_missing_anchor_exit [of broken_index] broken_examples(1) by blast
  have b: "fst (main broken_sitemap) = 1
      \<and> err_log (snd (main broken_sitemap)) = err_log broken_sitemap @ [''ERROR: Could not find sitemap markers'']
      \<and> sitemap_file (snd (main broken_sitemap)) = sitemap_file broken_sitemap"
    using C1_missing_anchor_exit [of broken_sitemap] broken_examples(2) broken_sitemap_markers by blast
  have c: "fst (main three_reviews) = 0 \<and> err_log (snd (main three_reviews)) = err_log three_reviews"
    using C1_missing_anchor_exit [of three_reviews] broken_examples(3,4,5) by blast
  from a b c show ?thesis
    unfolding example_fields by simp
qed

text \<open>
  C5 on three review files dated 2025-01-05, 2026-03-01 and 2024-11-30.
\<close>

theorem C5_newest_first_witness:
  \<open>sorted_wrt (\<lambda>a b. m_date b \<le> m_date a) (collect three_reviews)
   \<and> map m_date (extracted three_reviews) = [''2025-01-05'', ''2026-03-01'', ''2024-11-30'']
   \<and> map m_date (collect three_reviews) = [''2026-03-01'', ''2025-01-05'', ''2024-11-30'']
   \<and> index_file (snd (main three_reviews)) = js_replace re_marker (newBlock (collect three_reviews)) example_index
   \<and> map m_title (collect three_reviews) = [''Lamp'', ''Kettle'', ''Radio'']
   \<and> report (main three_reviews) =
     (0, [''Found 3 review files'', ''Extracted metadata for 3 reviews'', ''Updated index.html with 3 reviews'', ''Updated sitemap.xml with 3 review URLs'', ''Files updated successfully''], [], [''index.html'', ''sitemap.xml''],
      ''const reviewsData = [\<newline>      {\<newline>        title: "Lamp",\<newline>        url: "/regions/en/reviews/lamp.html",\<newline>        category: "General",\<newline>        excerpt: "",\<newline>        image: "",\<newline>        date: "2026-03-01"\<newline>      },\<newline>      {\<newline>        title: "Kettle",\<newline>        url: "/regions/en/reviews/kettle.html",\<newline>        category: "General",\<newline>        excerpt: "",\<newline>        image: "",\<newline>        date: "2025-01-05"\<newline>      },\<newline>      {\<newline>        title: "Radio",\<newline>        url: "/regions/en/reviews/radio.html",\<newline>        category: "General",\<newline>        excerpt: "",\<newline>        image: "",\<newline>        date: "2024-11-30"\<newline>      }\<newline>    ]; // END REVIEWS DATA'',
      ''<loc>https://smartbuyreviews.co.uk/regions/en/reviews/</loc><lastmod>2026-11-02</lastmod>\<newline><!-- Reviews - AUTO-GENERATED SECTION START -->\<newline>  <url>\<newline>    <loc>https://smartbuyreviews.co.uk/regions/en/reviews/lamp.html</loc>\<newline>    <lastmod>2026-03-01</lastmod>\<newline>    <changefreq>monthly</changefreq>\<newline>    <priority>0.7</priority>\<newline>  </url>\<newline>  <url>\<newline>    <loc>https://smartbuyreviews.co.uk/regions/en/reviews/kettle.html</loc>\<newline>    <lastmod>2025-01-05</lastmod>\<newline>    <changefreq>monthly</changefreq>\<newline>    <priority>0.7</priority>\<newline>  </url>\<newline>  <url>\<newline>    <loc>https://smartbuyreviews.co.uk/regions/en/reviews/radio.html</loc>\<newline>    <lastmod>2024-11-30</lastmod>\<newline>    <changefreq>monthly</changefreq>\<newline>    <priority>0.7</priority>\<newline>  </url>\<newline>  <!-- Reviews - AUTO-GENERATED SECTION END -->'')\<close>
proof -
  note t = C5_newest_first [of three_reviews]
  from t have a: "sorted_wrt (\<lambda>a b. m_date b \<le> m_date a) (collect three_reviews)"
    by blast
  from t broken_examples(3)
  have b: "index_file (snd (main three_reviews)) =
             js_replace re_marker (newBlock (collect three_reviews)) (index_file three_reviews)"
    by blast
  have c: "map m_title (collect three_reviews) = [''Lamp'', ''Kettle'', ''Radio'']"
    by code_simp
  from a b c three_reviews_dates three_reviews_report show ?thesis
    unfolding example_fields by blast
qed

end
